theory Spec2Isabelle
  imports Main "HOL-Library.Multiset"
begin

section \<open>Errors, clusters and the cluster specification\<close>

text \<open>
  Go's \<open>error\<close> is an interface value that may be nil. A non-nil error is a value of
  \<open>err\<close>; the interface is \<open>err option\<close> with \<open>None\<close> for nil.
  \<open>Wrapped p e\<close> stands for \<open>fmt.Errorf(p + "%v", e)\<close>, and
  \<open>ValidationsFailed ns\<close> for the combined error of the validation runner.
  \<open>Panic\<close> is a run-time panic (a nil pointer dereference); it leaves every function
  on the way up as the panic it is, which is how the model hands it on.
\<close>

datatype err = Err string | Wrapped string err | ValidationsFailed "string list" | Panic string

type_synonym error = "err option"

text \<open>\<open>types.Cluster\<close>; a \<open>*types.Cluster\<close> is a \<open>Cluster option\<close>, nil being \<open>None\<close>.\<close>

record Cluster =
  Name :: string
  KubeconfigFile :: string

text \<open>
  The versions bundle of the release (\<open>release/api/v1alpha1\<close>), with the fields
  \<open>clusterctl.go\<close> reads. An \<open>Image\<close> carries what its methods \<open>Image()\<close> and \<open>Tag()\<close>
  return. The bundles of the core providers (cluster-api, kubeadm bootstrap and control
  plane, the two etcdadm providers, aws) are read through the same five fields and share
  one record.
\<close>

record Image =
  Image_Image :: string
  Image_Tag :: string

record Manifest =
  URI :: string

record CertManagerBundle =
  Cainjector :: Image
  CertManager_Controller :: Image
  Webhook :: Image

record CoreBundle =
  Version :: string
  Controller :: Image
  KubeProxy :: Image
  Components :: Manifest
  Metadata :: Manifest

record VSphereBundle =
  ClusterAPIController :: Image
  VSphere_KubeProxy :: Image

record DockerBundle =
  Docker_KubeProxy :: Image
  Manager :: Image

record VersionsBundle =
  CertManager :: CertManagerBundle
  ClusterAPI :: CoreBundle
  Bootstrap :: CoreBundle
  ControlPlane :: CoreBundle
  Aws :: CoreBundle
  VSphere :: VSphereBundle
  Docker :: DockerBundle
  ExternalEtcdBootstrap :: CoreBundle
  ExternalEtcdController :: CoreBundle

record ExternalEtcdConfiguration =
  Count :: int

text \<open>
  \<open>cluster.Spec\<close>, with the fields the two packages read. \<open>Paused\<close> is the annotation
  that \<open>PauseReconcile\<close> sets; \<open>ExternalEtcdConfiguration\<close> is a pointer, nil being
  \<open>None\<close>.
\<close>

record Spec =
  Spec_Name :: string
  Paused :: bool
  ExternalEtcdConfiguration :: "ExternalEtcdConfiguration option"
  VersionsBundle :: VersionsBundle

text \<open>
  Modelled from the spec: \<open>PauseReconcile\<close> of the cluster object is not in the source
  files at hand; the spec says the custom resources are created "while reconciliation is
  paused".
\<close>

definition Spec_PauseReconcile :: "Spec \<Rightarrow> Spec" where
  "Spec_PauseReconcile s = s\<lparr>Paused := True\<rparr>"

section \<open>The outside world and the collaborators\<close>

text \<open>
  Everything outside the process (the provider's state, the clusters, the disk) is a
  value of the type parameter \<open>'w\<close>. A collaborator method takes its arguments and the
  world and returns its result and the new world, so two calls of one method may differ
  in outcome. \<open>calls\<close> is the history of the collaborator calls issued so far, each with
  the error it returned, in program order.
\<close>

datatype call =
    BootstrapClusterOptsCall
  | CreateBootstrapClusterCall
  | DeleteBootstrapClusterCall "Cluster option" bool
  | InstallCapiCall "Cluster option"
  | BootstrapSetupCall
  | ValidationCall string
  | CreateWorkloadClusterCall
  | InstallNetworkingCall
  | InstallStorageClassCall
  | InstallMachineHealthChecksCall
  | MoveCapiCall
  | InstallCustomComponentsCall
  | CreateEKSAResourcesCall
  | ResumeEKSAControllerReconcileCall
  | InstallGitOpsCall
  | WriteClusterConfigCall
  | SaveLogsCall
  | GetwdCall
  | WriteToFileCall string
  | MkdirAllCall string
  | LoadManifestCall Manifest
  | WriteFileCall string
  | EnvMapCall
  | ExecuteWithEnvCall "string list"

record 'w env =
  world :: 'w
  calls :: "(call \<times> error) list"

definition invoke :: "call \<Rightarrow> ('w \<Rightarrow> error \<times> 'w) \<Rightarrow> 'w env \<Rightarrow> error \<times> 'w env" where
  "invoke c f e =
     (case f (world e) of
        (r, w') \<Rightarrow> (r, \<lparr>world = w', calls = calls e @ [(c, r)]\<rparr>))"

text \<open>
  A Go method returning \<open>(value, error)\<close> returns \<open>Inl\<close> of the error or \<open>Inr\<close> of the
  value: the interfaces of the spec give a creation call one result, the handle
  (\<open>createBootstrapCluster(spec, options) -> clusterHandle\<close>).
\<close>

definition invoke_val ::
  "call \<Rightarrow> ('w \<Rightarrow> (err + 'a) \<times> 'w) \<Rightarrow> 'w env \<Rightarrow> (err + 'a) \<times> 'w env" where
  "invoke_val c f e =
     (case f (world e) of
        (r, w') \<Rightarrow>
          (r, \<lparr>world = w',
               calls = calls e @ [(c, case r of Inl x \<Rightarrow> Some x | Inr _ \<Rightarrow> None)]\<rparr>))"

type_synonym BootstrapClusterOption = string
type_synonym MachineConfig = string

text \<open>\<open>providers.DatacenterConfig\<close>: an object of the provider with a \<open>PauseReconcile\<close> method.\<close>

record 'w DatacenterConfig =
  DatacenterConfig_Kind :: string
  DatacenterConfig_PauseReconcile :: "'w \<Rightarrow> 'w"

text \<open>\<open>types.InfrastructureBundle\<close>.\<close>

record InfrastructureBundle =
  FolderName :: string
  Manifests :: "Manifest list"

text \<open>
  \<open>providers.Provider\<close>, with the methods the two packages call.
  \<open>GetInfrastructureBundle\<close> returns a pointer, nil being \<open>None\<close>. \<open>BootstrapSetup\<close>
  is handed the cluster object embedded in the spec; here it is handed the spec.
\<close>

record 'w Provider =
  Provider_Name :: string
  Provider_Version :: "Spec \<Rightarrow> string"
  EnvMap :: "'w \<Rightarrow> (err + (string \<times> string) list) \<times> 'w"
  GetInfrastructureBundle :: "Spec \<Rightarrow> InfrastructureBundle option"
  BootstrapClusterOpts :: "'w \<Rightarrow> (err + BootstrapClusterOption list) \<times> 'w"
  BootstrapSetup :: "Spec \<Rightarrow> Cluster option \<Rightarrow> 'w \<Rightarrow> error \<times> 'w"
  SetupAndValidateCreateCluster :: "Spec \<Rightarrow> 'w \<Rightarrow> error \<times> 'w"
  DatacenterConfig :: "'w \<Rightarrow> 'w DatacenterConfig"
  MachineConfigs :: "'w \<Rightarrow> MachineConfig list"

record 'w Bootstrapper =
  CreateBootstrapCluster ::
    "Spec \<Rightarrow> BootstrapClusterOption list \<Rightarrow> 'w \<Rightarrow> (err + Cluster) \<times> 'w"
  DeleteBootstrapCluster :: "Cluster option \<Rightarrow> bool \<Rightarrow> 'w \<Rightarrow> error \<times> 'w"

record 'w ClusterManager =
  InstallCapi :: "Spec \<Rightarrow> Cluster option \<Rightarrow> 'w Provider \<Rightarrow> 'w \<Rightarrow> error \<times> 'w"
  CreateWorkloadCluster ::
    "Cluster option \<Rightarrow> Spec \<Rightarrow> 'w Provider \<Rightarrow> 'w \<Rightarrow> (err + Cluster) \<times> 'w"
  InstallNetworking :: "Cluster option \<Rightarrow> Spec \<Rightarrow> 'w \<Rightarrow> error \<times> 'w"
  InstallStorageClass :: "Cluster option \<Rightarrow> 'w Provider \<Rightarrow> 'w \<Rightarrow> error \<times> 'w"
  InstallMachineHealthChecks :: "Cluster option \<Rightarrow> 'w Provider \<Rightarrow> 'w \<Rightarrow> error \<times> 'w"
  MoveCapi :: "Cluster option \<Rightarrow> Cluster option \<Rightarrow> 'w \<Rightarrow> error \<times> 'w"
  InstallCustomComponents :: "Spec \<Rightarrow> Cluster option \<Rightarrow> 'w \<Rightarrow> error \<times> 'w"
  CreateEKSAResources ::
    "Cluster option \<Rightarrow> Spec \<Rightarrow> 'w DatacenterConfig \<Rightarrow> MachineConfig list \<Rightarrow> 'w \<Rightarrow> error \<times> 'w"
  ResumeEKSAControllerReconcile ::
    "Cluster option \<Rightarrow> Spec \<Rightarrow> 'w Provider \<Rightarrow> 'w \<Rightarrow> error \<times> 'w"
  SaveLogs :: "Cluster option \<Rightarrow> 'w \<Rightarrow> error \<times> 'w"

section \<open>Validations and the validation runner\<close>

record ValidationResult =
  result_Name :: string
  result_Err :: error

text \<open>A validation is a deferred check: a closure that, when called, yields a result.\<close>

type_synonym 'w Validation = "'w \<Rightarrow> ValidationResult \<times> 'w"

record 'w AddonManager =
  InstallGitOps ::
    "Cluster option \<Rightarrow> Spec \<Rightarrow> 'w DatacenterConfig \<Rightarrow> MachineConfig list \<Rightarrow> 'w \<Rightarrow> error \<times> 'w"
  Validations :: "Spec \<Rightarrow> 'w Validation list"

text \<open>
  Modelled from the spec: the package \<open>validations\<close> (\<open>NewRunner\<close>, \<open>Register\<close>, \<open>Run\<close>)
  is not in the source files at hand. The spec: \<open>register(validations...)\<close>;
  \<open>run() -> error\<close> "executes every registered validation regardless of earlier
  failures (no short-circuit), collects all Results, and returns a single combined error
  naming every failed validation if at least one failed, or none if all passed".
  Each executed validation is entered in the call history with its result.
\<close>

record 'w Runner =
  validations :: "'w Validation list"

definition NewRunner :: "'w Runner" where
  "NewRunner = \<lparr>validations = []\<rparr>"

definition Register :: "'w Runner \<Rightarrow> 'w Validation list \<Rightarrow> 'w Runner" where
  "Register r vs = r\<lparr>validations := validations r @ vs\<rparr>"

fun collect_results :: "'w Validation list \<Rightarrow> 'w env \<Rightarrow> ValidationResult list \<times> 'w env" where
  "collect_results [] e = ([], e)"
| "collect_results (v # vs) e =
     (case v (world e) of
        (r, w') \<Rightarrow>
          (case collect_results vs
                  \<lparr>world = w', calls = calls e @ [(ValidationCall (result_Name r), result_Err r)]\<rparr> of
             (rs, e') \<Rightarrow> (r # rs, e')))"

definition failed_results :: "ValidationResult list \<Rightarrow> ValidationResult list" where
  "failed_results rs = filter (\<lambda>r. result_Err r \<noteq> None) rs"

definition combined_error :: "ValidationResult list \<Rightarrow> error" where
  "combined_error rs =
     (if failed_results rs = [] then None
      else Some (ValidationsFailed (map result_Name (failed_results rs))))"

definition Runner_Run :: "'w Runner \<Rightarrow> 'w env \<Rightarrow> error \<times> 'w env" where
  "Runner_Run r e =
     (case collect_results (validations r) e of (rs, e') \<Rightarrow> (combined_error rs, e'))"

section \<open>The execution context\<close>

text \<open>
  Modelled from the spec: \<open>clustermarshaller.WriteClusterConfig\<close> and
  \<open>filewriter.FileWriter\<close> are not in the source files at hand. The spec's Writer
  "persists the final cluster configuration as a durable artifact"; the call
  \<open>clustermarshaller.WriteClusterConfig(spec, datacenterConfig, machineConfigs, writer)\<close>
  is that one operation of the writer.
\<close>

record 'w FileWriter =
  WriteClusterConfig ::
    "Spec \<Rightarrow> 'w DatacenterConfig \<Rightarrow> MachineConfig list \<Rightarrow> 'w \<Rightarrow> error \<times> 'w"

text \<open>
  Modelled from the spec: \<open>task.CommandContext\<close> and its \<open>SetError\<close> are not in the source
  files at hand. The fields are those \<open>Create.Run\<close> fills and the tasks read. The spec on
  \<open>setError(err)\<close>: "if no error is currently captured, stores it as the original cause
  and marks the run failed; if an error is already captured, the new error is observed
  (e.g., logged) but does not overwrite the original". \<open>ObservedErrors\<close> is the log of
  every error handed to \<open>SetError\<close>, oldest first.
\<close>

record 'w CommandContext =
  Bootstrapper :: "'w Bootstrapper"
  Provider :: "'w Provider"
  ClusterManager :: "'w ClusterManager"
  AddonManager :: "'w AddonManager"
  ClusterSpec :: "Spec"
  Rollback :: bool
  Writer :: "'w FileWriter"
  BootstrapCluster :: "Cluster option"
  WorkloadCluster :: "Cluster option"
  OriginalError :: error
  ObservedErrors :: "err list"

definition SetError :: "'w CommandContext \<Rightarrow> err \<Rightarrow> 'w CommandContext" where
  "SetError cc e =
     (if OriginalError cc = None
      then cc\<lparr>OriginalError := Some e, ObservedErrors := ObservedErrors cc @ [e]\<rparr>
      else cc\<lparr>ObservedErrors := ObservedErrors cc @ [e]\<rparr>)"

section \<open>The tasks of the create workflow\<close>

text \<open>
  The nine task types of \<open>create.go\<close>. A task's \<open>Run\<close> takes the context and returns the
  next task, \<open>None\<close> for Go's nil; here it also takes and returns the environment. The
  context is updated in place in Go and returned updated here.
\<close>

datatype task =
    CreateBootStrapClusterTask
  | DeleteKindClusterTask
  | SetAndValidateTask
  | CreateWorkloadClusterTask
  | InstallEksaComponentsTask
  | InstallAddonManagerTask
  | MoveClusterManagementTask
  | WriteClusterConfigTask
  | DeleteBootstrapClusterTask

type_synonym 'w run_state = "'w CommandContext \<times> 'w env"

definition CreateBootStrapClusterTask_Run ::
  "'w run_state \<Rightarrow> task option \<times> 'w run_state" where
  "CreateBootStrapClusterTask_Run s =
     (case s of (cc, e) \<Rightarrow>
      (case invoke_val BootstrapClusterOptsCall (BootstrapClusterOpts (Provider cc)) e of
         (Inl err, e1) \<Rightarrow> (None, SetError cc err, e1)
       | (Inr bootstrapOptions, e1) \<Rightarrow>
      (case invoke_val CreateBootstrapClusterCall
              (CreateBootstrapCluster (Bootstrapper cc) (ClusterSpec cc) bootstrapOptions) e1 of
         (Inl err, e2) \<Rightarrow> (Some DeleteKindClusterTask, SetError cc err, e2)
       | (Inr bootstrapCluster, e2) \<Rightarrow>
      (let cc1 = cc\<lparr>BootstrapCluster := Some bootstrapCluster\<rparr> in
      (case invoke (InstallCapiCall (Some bootstrapCluster))
              (InstallCapi (ClusterManager cc1) (ClusterSpec cc1) (Some bootstrapCluster)
                 (Provider cc1)) e2 of
         (Some err, e3) \<Rightarrow> (Some DeleteKindClusterTask, SetError cc1 err, e3)
       | (None, e3) \<Rightarrow>
      (case invoke BootstrapSetupCall
              (BootstrapSetup (Provider cc1) (ClusterSpec cc1) (Some bootstrapCluster)) e3 of
         (Some err, e4) \<Rightarrow> (Some DeleteKindClusterTask, SetError cc1 err, e4)
       | (None, e4) \<Rightarrow> (Some CreateWorkloadClusterTask, cc1, e4)))))))"

definition DeleteKindClusterTask_Run ::
  "'w run_state \<Rightarrow> task option \<times> 'w run_state" where
  "DeleteKindClusterTask_Run s =
     (case s of (cc, e) \<Rightarrow>
      (if BootstrapCluster cc \<noteq> None then
         (case invoke (DeleteBootstrapClusterCall (BootstrapCluster cc) False)
                 (DeleteBootstrapCluster (Bootstrapper cc) (BootstrapCluster cc) False) e of
            (Some err, e1) \<Rightarrow> (None, SetError cc err, e1)
          | (None, e1) \<Rightarrow> (None, cc, e1))
       else (None, cc, e)))"

text \<open>
  The provider's validation is a closure over the context: called, it asks the provider
  to set up and validate, and names its result after the provider.
\<close>

definition providerValidation :: "'w CommandContext \<Rightarrow> 'w Validation list" where
  "providerValidation cc =
     [\<lambda>w. (case SetupAndValidateCreateCluster (Provider cc) (ClusterSpec cc) w of
              (r, w') \<Rightarrow>
                (\<lparr>result_Name = Provider_Name (Provider cc) @ '' Provider setup is valid'',
                  result_Err = r\<rparr>, w'))]"

definition SetAndValidateTask_Run ::
  "'w run_state \<Rightarrow> task option \<times> 'w run_state" where
  "SetAndValidateTask_Run s =
     (case s of (cc, e) \<Rightarrow>
      (let runner = NewRunner;
           runner = Register runner (providerValidation cc);
           runner = Register runner (Validations (AddonManager cc) (ClusterSpec cc))
       in (case Runner_Run runner e of
             (Some err, e1) \<Rightarrow> (None, SetError cc err, e1)
           | (None, e1) \<Rightarrow> (Some CreateBootStrapClusterTask, cc, e1))))"

definition CreateWorkloadClusterTask_Run ::
  "'w run_state \<Rightarrow> task option \<times> 'w run_state" where
  "CreateWorkloadClusterTask_Run s =
     (case s of (cc, e) \<Rightarrow>
      (case invoke_val CreateWorkloadClusterCall
              (CreateWorkloadCluster (ClusterManager cc) (BootstrapCluster cc) (ClusterSpec cc)
                 (Provider cc)) e of
         (Inl err, e1) \<Rightarrow> (None, SetError cc err, e1)
       | (Inr workloadCluster, e1) \<Rightarrow>
      (let cc1 = cc\<lparr>WorkloadCluster := Some workloadCluster\<rparr> in
      (case invoke InstallNetworkingCall
              (InstallNetworking (ClusterManager cc1) (Some workloadCluster) (ClusterSpec cc1)) e1 of
         (Some err, e2) \<Rightarrow> (None, SetError cc1 err, e2)
       | (None, e2) \<Rightarrow>
      (case invoke InstallStorageClassCall
              (InstallStorageClass (ClusterManager cc1) (Some workloadCluster) (Provider cc1)) e2 of
         (Some err, e3) \<Rightarrow> (None, SetError cc1 err, e3)
       | (None, e3) \<Rightarrow>
      (case invoke (InstallCapiCall (WorkloadCluster cc1))
              (InstallCapi (ClusterManager cc1) (ClusterSpec cc1) (WorkloadCluster cc1)
                 (Provider cc1)) e3 of
         (Some err, e4) \<Rightarrow> (None, SetError cc1 err, e4)
       | (None, e4) \<Rightarrow>
      (case invoke InstallMachineHealthChecksCall
              (InstallMachineHealthChecks (ClusterManager cc1) (BootstrapCluster cc1)
                 (Provider cc1)) e4 of
         (Some err, e5) \<Rightarrow> (None, SetError cc1 err, e5)
       | (None, e5) \<Rightarrow> (Some MoveClusterManagementTask, cc1, e5))))))))"

definition MoveClusterManagementTask_Run ::
  "'w run_state \<Rightarrow> task option \<times> 'w run_state" where
  "MoveClusterManagementTask_Run s =
     (case s of (cc, e) \<Rightarrow>
      (case invoke MoveCapiCall
              (MoveCapi (ClusterManager cc) (BootstrapCluster cc) (WorkloadCluster cc)) e of
         (Some err, e1) \<Rightarrow> (None, SetError cc err, e1)
       | (None, e1) \<Rightarrow> (Some InstallEksaComponentsTask, cc, e1)))"

text \<open>
  \<open>datacenterConfig.PauseReconcile()\<close> changes the provider's object, which is part of
  the world; the handle \<open>datacenterConfig\<close> passed on afterwards is the same object.
\<close>

definition InstallEksaComponentsTask_Run ::
  "'w run_state \<Rightarrow> task option \<times> 'w run_state" where
  "InstallEksaComponentsTask_Run s =
     (case s of (cc, e) \<Rightarrow>
      (case invoke InstallCustomComponentsCall
              (InstallCustomComponents (ClusterManager cc) (ClusterSpec cc) (WorkloadCluster cc)) e of
         (Some err, e1) \<Rightarrow> (None, SetError cc err, e1)
       | (None, e1) \<Rightarrow>
      (let datacenterConfig = DatacenterConfig (Provider cc) (world e1);
           machineConfigs = MachineConfigs (Provider cc) (world e1);
           cc1 = cc\<lparr>ClusterSpec := Spec_PauseReconcile (ClusterSpec cc)\<rparr>;
           e2 = e1\<lparr>world := DatacenterConfig_PauseReconcile datacenterConfig (world e1)\<rparr> in
      (case invoke CreateEKSAResourcesCall
              (CreateEKSAResources (ClusterManager cc1) (WorkloadCluster cc1) (ClusterSpec cc1)
                 datacenterConfig machineConfigs) e2 of
         (Some err, e3) \<Rightarrow> (None, SetError cc1 err, e3)
       | (None, e3) \<Rightarrow>
      (case invoke ResumeEKSAControllerReconcileCall
              (ResumeEKSAControllerReconcile (ClusterManager cc1) (WorkloadCluster cc1)
                 (ClusterSpec cc1) (Provider cc1)) e3 of
         (Some err, e4) \<Rightarrow> (None, SetError cc1 err, e4)
       | (None, e4) \<Rightarrow> (Some InstallAddonManagerTask, cc1, e4))))))"

text \<open>
  On failure of \<open>InstallGitOps\<close> the source only logs (\<open>logger.MarkFail\<close>) and returns
  the same next task; \<open>SetError\<close> is not called.
\<close>

definition InstallAddonManagerTask_Run ::
  "'w run_state \<Rightarrow> task option \<times> 'w run_state" where
  "InstallAddonManagerTask_Run s =
     (case s of (cc, e) \<Rightarrow>
      (case invoke InstallGitOpsCall
              (InstallGitOps (AddonManager cc) (WorkloadCluster cc) (ClusterSpec cc)
                 (DatacenterConfig (Provider cc) (world e)) (MachineConfigs (Provider cc) (world e))) e of
         (Some err, e1) \<Rightarrow> (Some WriteClusterConfigTask, cc, e1)
       | (None, e1) \<Rightarrow> (Some WriteClusterConfigTask, cc, e1)))"

definition WriteClusterConfigTask_Run ::
  "'w run_state \<Rightarrow> task option \<times> 'w run_state" where
  "WriteClusterConfigTask_Run s =
     (case s of (cc, e) \<Rightarrow>
      (case invoke WriteClusterConfigCall
              (WriteClusterConfig (Writer cc) (ClusterSpec cc)
                 (DatacenterConfig (Provider cc) (world e)) (MachineConfigs (Provider cc) (world e))) e of
         (Some err, e1) \<Rightarrow> (Some DeleteBootstrapClusterTask, SetError cc err, e1)
       | (None, e1) \<Rightarrow> (Some DeleteBootstrapClusterTask, cc, e1)))"

text \<open>
  After the deletion the source tests \<open>OriginalError == nil\<close> only to log
  \<open>"Cluster created!"\<close>; the test changes nothing.
\<close>

definition DeleteBootstrapClusterTask_Run ::
  "'w run_state \<Rightarrow> task option \<times> 'w run_state" where
  "DeleteBootstrapClusterTask_Run s =
     (case s of (cc, e) \<Rightarrow>
      (case invoke (DeleteBootstrapClusterCall (BootstrapCluster cc) False)
              (DeleteBootstrapCluster (Bootstrapper cc) (BootstrapCluster cc) False) e of
         (Some err, e1) \<Rightarrow> (None, SetError cc err, e1)
       | (None, e1) \<Rightarrow> (None, cc, e1)))"

text \<open>Dynamic dispatch of \<open>task.Run\<close> over the nine task types.\<close>

fun Run :: "task \<Rightarrow> 'w run_state \<Rightarrow> task option \<times> 'w run_state" where
  "Run CreateBootStrapClusterTask s = CreateBootStrapClusterTask_Run s"
| "Run DeleteKindClusterTask s = DeleteKindClusterTask_Run s"
| "Run SetAndValidateTask s = SetAndValidateTask_Run s"
| "Run CreateWorkloadClusterTask s = CreateWorkloadClusterTask_Run s"
| "Run InstallEksaComponentsTask s = InstallEksaComponentsTask_Run s"
| "Run InstallAddonManagerTask s = InstallAddonManagerTask_Run s"
| "Run MoveClusterManagementTask s = MoveClusterManagementTask_Run s"
| "Run WriteClusterConfigTask s = WriteClusterConfigTask_Run s"
| "Run DeleteBootstrapClusterTask s = DeleteBootstrapClusterTask_Run s"

section \<open>The task runner and the entry point\<close>

text \<open>
  Modelled from the spec: \<open>task.NewTaskRunner\<close> and \<open>RunTask\<close> are not in the source
  files at hand. The spec: "current = initialTask; while current is not terminal,
  next = current.run(context); current = next", and the runner "returns the context's
  captured original error (or none) once the chain reaches a terminal Task". The loop
  may run forever for a catalog with a cycle, so its value is an option, \<open>None\<close> for a
  run that never ends. \<open>started\<close> is the list of the tasks run so far, in order.
\<close>

partial_function (option) task_loop ::
  "('t \<Rightarrow> 's \<Rightarrow> 't option \<times> 's) \<Rightarrow> 't option \<Rightarrow> 't list \<Rightarrow> 's \<Rightarrow> ('t list \<times> 's) option" where
  "task_loop run current started s =
     (case current of
        None \<Rightarrow> Some (started, s)
      | Some t \<Rightarrow> (case run t s of (next, s') \<Rightarrow> task_loop run next (started @ [t]) s'))"

declare task_loop.simps [code]

definition RunTask ::
  "task \<Rightarrow> 'w run_state \<Rightarrow> (error \<times> task list \<times> 'w run_state) option" where
  "RunTask initial s =
     (case task_loop Run (Some initial) [] s of
        None \<Rightarrow> None
      | Some (started, cc, e) \<Rightarrow> Some (OriginalError cc, started, cc, e))"

record 'w Create =
  Create_bootstrapper :: "'w Bootstrapper"
  Create_provider :: "'w Provider"
  Create_clusterManager :: "'w ClusterManager"
  Create_addonManager :: "'w AddonManager"
  Create_writer :: "'w FileWriter"

text \<open>
  The context \<open>Create.Run\<close> builds: the Go literal leaves \<open>BootstrapCluster\<close>,
  \<open>WorkloadCluster\<close> and \<open>OriginalError\<close> at their zero value nil.
\<close>

definition newCommandContext :: "'w Create \<Rightarrow> Spec \<Rightarrow> 'w CommandContext" where
  "newCommandContext c clusterSpec =
     \<lparr>Bootstrapper = Create_bootstrapper c,
      Provider = Create_provider c,
      ClusterManager = Create_clusterManager c,
      AddonManager = Create_addonManager c,
      ClusterSpec = clusterSpec,
      Rollback = False,
      Writer = Create_writer c,
      BootstrapCluster = None,
      WorkloadCluster = None,
      OriginalError = None,
      ObservedErrors = []\<rparr>"

text \<open>
  The result of \<open>Create.Run\<close>: the error it returns, together with what the run leaves
  behind: the context (\<open>None\<close> when none was built), the tasks run and the environment.
\<close>

record 'w outcome =
  returned :: error
  final_context :: "'w CommandContext option"
  tasks_run :: "task list"
  final_env :: "'w env"

definition Create_Run ::
  "'w Create \<Rightarrow> Spec \<Rightarrow> bool \<Rightarrow> 'w env \<Rightarrow> 'w outcome option" where
  "Create_Run c clusterSpec forceCleanup e =
     (let cleanup =
            (if forceCleanup
             then invoke (DeleteBootstrapClusterCall
                            (Some \<lparr>Name = Spec_Name clusterSpec, KubeconfigFile = []\<rparr>) False)
                    (DeleteBootstrapCluster (Create_bootstrapper c)
                       (Some \<lparr>Name = Spec_Name clusterSpec, KubeconfigFile = []\<rparr>) False) e
             else (None, e))
      in (case cleanup of
            (Some err, e1) \<Rightarrow>
              Some \<lparr>returned = Some err, final_context = None, tasks_run = [], final_env = e1\<rparr>
          | (None, e1) \<Rightarrow>
              (case RunTask SetAndValidateTask (newCommandContext c clusterSpec, e1) of
                 None \<Rightarrow> None
               | Some (err, started, cc, e2) \<Rightarrow>
                   (if err \<noteq> None
                    then (case invoke SaveLogsCall
                                 (SaveLogs (ClusterManager cc) (BootstrapCluster cc)) e2 of
                            (_, e3) \<Rightarrow>
                              Some \<lparr>returned = err, final_context = Some cc, tasks_run = started,
                                    final_env = e3\<rparr>)
                    else Some \<lparr>returned = err, final_context = Some cc, tasks_run = started,
                               final_env = e2\<rparr>))))"

section \<open>clusterctl: initialising the infrastructure\<close>

text \<open>
  What \<open>clusterctl.go\<close> uses and does not define: the package constants \<open>generatedDir\<close>
  and \<open>overridesDir\<close>, the embedded template, the path functions of the standard
  library, the calls to the operating system, \<open>clusterSpec.LoadManifest\<close> and the
  templater's \<open>WriteToFile\<close>. They are parameters, gathered in one record.
\<close>

record ManifestFile =
  Filename :: string
  Content :: string

record 'w Runtime =
  generatedDir :: string
  overridesDir :: string
  clusterctlConfigTemplate :: string
  filepath_Join :: "string list \<Rightarrow> string"
  path_Dir :: "string \<Rightarrow> string"
  os_Getwd :: "'w \<Rightarrow> (err + string) \<times> 'w"
  os_MkdirAll :: "string \<Rightarrow> 'w \<Rightarrow> error \<times> 'w"
  ioutil_WriteFile :: "string \<Rightarrow> string \<Rightarrow> 'w \<Rightarrow> error \<times> 'w"
  LoadManifest :: "Spec \<Rightarrow> Manifest \<Rightarrow> 'w \<Rightarrow> (err + ManifestFile) \<times> 'w"
  templater_WriteToFile ::
    "'w FileWriter \<Rightarrow> string \<Rightarrow> (string \<times> string) list \<Rightarrow> string \<Rightarrow> 'w
       \<Rightarrow> (err + string) \<times> 'w"

record 'w Executable =
  ExecuteWithEnv :: "(string \<times> string) list \<Rightarrow> string list \<Rightarrow> 'w \<Rightarrow> (err + string) \<times> 'w"

record 'w Clusterctl =
  executable :: "'w Executable"
  Clusterctl_writer :: "'w FileWriter"

record clusterctlConfiguration =
  coreVersion :: string
  bootstrapVersion :: string
  controlPlaneVersion :: string
  configFile :: string
  etcdadmBootstrapVersion :: string
  etcdadmControllerVersion :: string

definition clusterctlConfigFile :: string where
  "clusterctlConfigFile = ''clusterctl_tmp.yaml''"

definition capiPrefix :: string where
  "capiPrefix = ''/generated/overrides''"

definition imageRepository :: "'w Runtime \<Rightarrow> Image \<Rightarrow> string" where
  "imageRepository rt img = path_Dir rt (Image_Image img)"

text \<open>The loop of \<open>writeInfrastructureBundle\<close> over the manifests of a bundle.\<close>

fun write_manifests ::
  "'w Runtime \<Rightarrow> Spec \<Rightarrow> string \<Rightarrow> Manifest list \<Rightarrow> 'w env \<Rightarrow> error \<times> 'w env" where
  "write_manifests rt clusterSpec infraFolder [] e = (None, e)"
| "write_manifests rt clusterSpec infraFolder (manifest # rest) e =
     (case invoke_val (LoadManifestCall manifest) (LoadManifest rt clusterSpec manifest) e of
        (Inl err, e1) \<Rightarrow> (Some (Wrapped ''can't load infrastructure bundle: '' err), e1)
      | (Inr m, e1) \<Rightarrow>
     (case invoke (WriteFileCall (filepath_Join rt [infraFolder, Filename m]))
             (ioutil_WriteFile rt (filepath_Join rt [infraFolder, Filename m]) (Content m)) e1 of
        (Some err, e2) \<Rightarrow>
          (Some (Wrapped (''error generating file for infrastructure bundle '' @ Filename m
                          @ '': '') err), e2)
      | (None, e2) \<Rightarrow> write_manifests rt clusterSpec infraFolder rest e2))"

definition writeInfrastructureBundle ::
  "'w Runtime \<Rightarrow> Spec \<Rightarrow> string \<Rightarrow> InfrastructureBundle option \<Rightarrow> 'w env \<Rightarrow> error \<times> 'w env" where
  "writeInfrastructureBundle rt clusterSpec rootFolder bundle e =
     (case bundle of
        None \<Rightarrow> (None, e)
      | Some b \<Rightarrow>
          (let infraFolder = filepath_Join rt [rootFolder, FolderName b] in
           (case invoke (MkdirAllCall infraFolder) (os_MkdirAll rt infraFolder) e of
              (Some err, e1) \<Rightarrow> (Some err, e1)
            | (None, e1) \<Rightarrow> write_manifests rt clusterSpec infraFolder (Manifests b) e1)))"

text \<open>The loop of \<open>buildOverridesLayer\<close> over the bundles; it stops at the first error.\<close>

fun write_bundles ::
  "'w Runtime \<Rightarrow> Spec \<Rightarrow> string \<Rightarrow> InfrastructureBundle list \<Rightarrow> 'w env \<Rightarrow> error \<times> 'w env" where
  "write_bundles rt clusterSpec prefix [] e = (None, e)"
| "write_bundles rt clusterSpec prefix (infraBundle # rest) e =
     (case writeInfrastructureBundle rt clusterSpec prefix (Some infraBundle) e of
        (Some err, e1) \<Rightarrow> (Some err, e1)
      | (None, e1) \<Rightarrow> write_bundles rt clusterSpec prefix rest e1)"

definition coreInfraBundle :: "'w Runtime \<Rightarrow> string \<Rightarrow> CoreBundle \<Rightarrow> InfrastructureBundle" where
  "coreInfraBundle rt folder b =
     \<lparr>FolderName = filepath_Join rt [folder, Version b],
      Manifests = [Components b, Metadata b]\<rparr>"

text \<open>
  \<open>*provider.GetInfrastructureBundle(clusterSpec)\<close> dereferences the pointer the provider
  returns: a nil pointer panics, before any bundle is written.
\<close>

definition buildOverridesLayer ::
  "'w Runtime \<Rightarrow> Spec \<Rightarrow> string \<Rightarrow> 'w Provider \<Rightarrow> 'w env \<Rightarrow> error \<times> 'w env" where
  "buildOverridesLayer rt clusterSpec clusterName provider e =
     (let bundle = VersionsBundle clusterSpec;
          prefix = filepath_Join rt [clusterName, generatedDir rt, overridesDir rt];
          infraBundles =
            [coreInfraBundle rt ''bootstrap-kubeadm'' (Bootstrap bundle),
             coreInfraBundle rt ''cluster-api'' (ClusterAPI bundle),
             coreInfraBundle rt ''control-plane-kubeadm'' (ControlPlane bundle)];
          infraBundles =
            (if ExternalEtcdConfiguration clusterSpec \<noteq> None
             then infraBundles @
                    [coreInfraBundle rt ''bootstrap-etcdadm-bootstrap'' (ExternalEtcdBootstrap bundle),
                     coreInfraBundle rt ''bootstrap-etcdadm-controller'' (ExternalEtcdController bundle)]
             else infraBundles)
      in (case GetInfrastructureBundle provider clusterSpec of
            None \<Rightarrow> (Some (Panic ''nil pointer dereference''), e)
          | Some providerBundle \<Rightarrow>
              write_bundles rt clusterSpec prefix (infraBundles @ [providerBundle]) e))"

text \<open>The \<open>data\<close> map of \<open>buildConfig\<close>, as the list of its entries.\<close>

definition configData :: "'w Runtime \<Rightarrow> VersionsBundle \<Rightarrow> string \<Rightarrow> string \<Rightarrow> (string \<times> string) list" where
  "configData rt bundle path clusterName =
     [(''CertManagerInjectorRepository'', imageRepository rt (Cainjector (CertManager bundle))),
      (''CertManagerInjectorTag'', Image_Tag (Cainjector (CertManager bundle))),
      (''CertManagerControllerRepository'', imageRepository rt (CertManager_Controller (CertManager bundle))),
      (''CertManagerControllerTag'', Image_Tag (CertManager_Controller (CertManager bundle))),
      (''CertManagerWebhookRepository'', imageRepository rt (Webhook (CertManager bundle))),
      (''CertManagerWebhookTag'', Image_Tag (Webhook (CertManager bundle))),
      (''ClusterApiControllerRepository'', imageRepository rt (Controller (ClusterAPI bundle))),
      (''ClusterApiControllerTag'', Image_Tag (Controller (ClusterAPI bundle))),
      (''ClusterApiKubeRbacProxyRepository'', imageRepository rt (KubeProxy (ClusterAPI bundle))),
      (''ClusterApiKubeRbacProxyTag'', Image_Tag (KubeProxy (ClusterAPI bundle))),
      (''KubeadmBootstrapControllerRepository'', imageRepository rt (Controller (Bootstrap bundle))),
      (''KubeadmBootstrapControllerTag'', Image_Tag (Controller (Bootstrap bundle))),
      (''KubeadmBootstrapKubeRbacProxyRepository'', imageRepository rt (KubeProxy (Bootstrap bundle))),
      (''KubeadmBootstrapKubeRbacProxyTag'', Image_Tag (KubeProxy (Bootstrap bundle))),
      (''KubeadmControlPlaneControllerRepository'', imageRepository rt (Controller (ControlPlane bundle))),
      (''KubeadmControlPlaneControllerTag'', Image_Tag (Controller (ControlPlane bundle))),
      (''KubeadmControlPlaneKubeRbacProxyRepository'', imageRepository rt (KubeProxy (ControlPlane bundle))),
      (''KubeadmControlPlaneKubeRbacProxyTag'', Image_Tag (KubeProxy (ControlPlane bundle))),
      (''ClusterApiAwsControllerRepository'', imageRepository rt (Controller (Aws bundle))),
      (''ClusterApiAwsControllerTag'', Image_Tag (Controller (Aws bundle))),
      (''ClusterApiAwsKubeRbacProxyRepository'', imageRepository rt (KubeProxy (Aws bundle))),
      (''ClusterApiAwsKubeRbacProxyTag'', Image_Tag (KubeProxy (Aws bundle))),
      (''ClusterApiVSphereControllerRepository'', imageRepository rt (ClusterAPIController (VSphere bundle))),
      (''ClusterApiVSphereControllerTag'', Image_Tag (ClusterAPIController (VSphere bundle))),
      (''ClusterApiVSphereKubeRbacProxyRepository'', imageRepository rt (VSphere_KubeProxy (VSphere bundle))),
      (''ClusterApiVSphereKubeRbacProxyTag'', Image_Tag (VSphere_KubeProxy (VSphere bundle))),
      (''DockerKubeRbacProxyRepository'', imageRepository rt (Docker_KubeProxy (Docker bundle))),
      (''DockerKubeRbacProxyTag'', Image_Tag (Docker_KubeProxy (Docker bundle))),
      (''DockerManagerRepository'', imageRepository rt (Manager (Docker bundle))),
      (''DockerManagerTag'', Image_Tag (Manager (Docker bundle))),
      (''EtcdadmBootstrapProviderRepository'', imageRepository rt (Controller (ExternalEtcdBootstrap bundle))),
      (''EtcdadmBootstrapProviderTag'', Image_Tag (Controller (ExternalEtcdBootstrap bundle))),
      (''EtcdadmBootstrapProviderKubeRbacProxyRepository'', imageRepository rt (KubeProxy (ExternalEtcdBootstrap bundle))),
      (''EtcdadmBootstrapProviderKubeRbacProxyTag'', Image_Tag (KubeProxy (ExternalEtcdBootstrap bundle))),
      (''EtcdadmControllerRepository'', imageRepository rt (Controller (ExternalEtcdController bundle))),
      (''EtcdadmControllerTag'', Image_Tag (Controller (ExternalEtcdController bundle))),
      (''EtcdadmControllerKubeRbacProxyRepository'', imageRepository rt (KubeProxy (ExternalEtcdController bundle))),
      (''EtcdadmControllerKubeRbacProxyTag'', Image_Tag (KubeProxy (ExternalEtcdController bundle))),
      (''dir'', path @ ''/'' @ clusterName @ capiPrefix)]"

text \<open>
  \<open>clusterSpec\<close> is a pointer, nil being \<open>None\<close>: \<open>buildConfig\<close> reads
  \<open>clusterSpec.VersionsBundle\<close> before anything else, and panics on nil.
\<close>

definition buildConfig ::
  "'w Runtime \<Rightarrow> 'w Clusterctl \<Rightarrow> Spec option \<Rightarrow> string \<Rightarrow> 'w Provider \<Rightarrow> 'w env
     \<Rightarrow> (err + clusterctlConfiguration) \<times> 'w env" where
  "buildConfig rt c clusterSpecPtr clusterName provider e =
     (case clusterSpecPtr of
        None \<Rightarrow> (Inl (Panic ''nil pointer dereference''), e)
      | Some clusterSpec \<Rightarrow>
     (let bundle = VersionsBundle clusterSpec in
     (case invoke_val GetwdCall (os_Getwd rt) e of
        (Inl err, e1) \<Rightarrow> (Inl err, e1)
      | (Inr path, e1) \<Rightarrow>
     (let data = configData rt bundle path clusterName in
     (case invoke_val (WriteToFileCall clusterctlConfigFile)
             (templater_WriteToFile rt (Clusterctl_writer c) (clusterctlConfigTemplate rt) data
                clusterctlConfigFile) e1 of
        (Inl err, e2) \<Rightarrow>
          (Inl (Wrapped ''error generating configuration file for clusterctl: '' err), e2)
      | (Inr filePath, e2) \<Rightarrow>
     (case buildOverridesLayer rt clusterSpec clusterName provider e2 of
        (Some err, e3) \<Rightarrow> (Inl err, e3)
      | (None, e3) \<Rightarrow>
          (Inr \<lparr>coreVersion = ''cluster-api:'' @ Version (ClusterAPI bundle),
                bootstrapVersion = ''kubeadm:'' @ Version (Bootstrap bundle),
                controlPlaneVersion = ''kubeadm:'' @ Version (ControlPlane bundle),
                configFile = filePath,
                etcdadmBootstrapVersion =
                  ''etcdadm-bootstrap:'' @ Version (ExternalEtcdBootstrap bundle),
                etcdadmControllerVersion =
                  ''etcdadm-controller:'' @ Version (ExternalEtcdController bundle)\<rparr>, e3)))))))"

definition initParams ::
  "Spec \<Rightarrow> Cluster \<Rightarrow> 'w Provider \<Rightarrow> clusterctlConfiguration \<Rightarrow> string list" where
  "initParams clusterSpec cluster provider clusterctlConfig =
     (let params =
            [''init'',
             ''--core'', coreVersion clusterctlConfig,
             ''--bootstrap'', bootstrapVersion clusterctlConfig,
             ''--control-plane'', controlPlaneVersion clusterctlConfig,
             ''--infrastructure'',
               Provider_Name provider @ '':'' @ Provider_Version provider clusterSpec,
             ''--config'', configFile clusterctlConfig];
          params =
            (if ExternalEtcdConfiguration clusterSpec \<noteq> None
             then params @ [''--bootstrap'', etcdadmBootstrapVersion clusterctlConfig,
                            ''--bootstrap'', etcdadmControllerVersion clusterctlConfig]
             else params);
          params =
            (if KubeconfigFile cluster \<noteq> []
             then params @ [''--kubeconfig'', KubeconfigFile cluster]
             else params)
      in params)"

definition InitInfrastructure ::
  "'w Runtime \<Rightarrow> 'w Clusterctl \<Rightarrow> Spec option \<Rightarrow> Cluster option \<Rightarrow> 'w Provider \<Rightarrow> 'w env
     \<Rightarrow> error \<times> 'w env" where
  "InitInfrastructure rt c clusterSpecPtr clusterPtr provider e =
     (case clusterPtr of
        None \<Rightarrow> (Some (Err ''invalid cluster (nil)''), e)
      | Some cluster \<Rightarrow>
     (if Name cluster = []
      then (Some (Err (''invalid cluster name '' @ [CHR 0x27] @ Name cluster @ [CHR 0x27])), e)
      else
     (case buildConfig rt c clusterSpecPtr (Name cluster) provider e of
        (Inl err, e1) \<Rightarrow> (Some err, e1)
      | (Inr clusterctlConfig, e1) \<Rightarrow>
     (let params = initParams (the clusterSpecPtr) cluster provider clusterctlConfig in
     (case invoke_val EnvMapCall (EnvMap provider) e1 of
        (Inl err, e2) \<Rightarrow> (Some err, e2)
      | (Inr envMap, e2) \<Rightarrow>
     (case invoke_val (ExecuteWithEnvCall params)
             (ExecuteWithEnv (executable c) envMap params) e2 of
        (Inl err, e3) \<Rightarrow> (Some (Wrapped ''error executing init: '' err), e3)
      | (Inr stdout, e3) \<Rightarrow> (None, e3)))))))"


section \<open>Notions used to state the properties\<close>

text \<open>
  The rank of a task: every transition of the catalog leads to a task of smaller rank,
  and \<open>SetAndValidateTask\<close> has rank 7.
\<close>

fun rank :: "task \<Rightarrow> nat" where
  "rank SetAndValidateTask = 7"
| "rank CreateBootStrapClusterTask = 6"
| "rank CreateWorkloadClusterTask = 5"
| "rank MoveClusterManagementTask = 4"
| "rank InstallEksaComponentsTask = 3"
| "rank InstallAddonManagerTask = 2"
| "rank WriteClusterConfigTask = 1"
| "rank DeleteBootstrapClusterTask = 0"
| "rank DeleteKindClusterTask = 0"

text \<open>
  The successor a task chooses when every call it issues succeeds, and the tasks run from
  a task on when that holds to the end.
\<close>

fun happy_next :: "task \<Rightarrow> task option" where
  "happy_next SetAndValidateTask = Some CreateBootStrapClusterTask"
| "happy_next CreateBootStrapClusterTask = Some CreateWorkloadClusterTask"
| "happy_next CreateWorkloadClusterTask = Some MoveClusterManagementTask"
| "happy_next MoveClusterManagementTask = Some InstallEksaComponentsTask"
| "happy_next InstallEksaComponentsTask = Some InstallAddonManagerTask"
| "happy_next InstallAddonManagerTask = Some WriteClusterConfigTask"
| "happy_next WriteClusterConfigTask = Some DeleteBootstrapClusterTask"
| "happy_next DeleteBootstrapClusterTask = None"
| "happy_next DeleteKindClusterTask = None"

fun happy_path :: "task \<Rightarrow> task list" where
  "happy_path SetAndValidateTask =
     [SetAndValidateTask, CreateBootStrapClusterTask, CreateWorkloadClusterTask,
      MoveClusterManagementTask, InstallEksaComponentsTask, InstallAddonManagerTask,
      WriteClusterConfigTask, DeleteBootstrapClusterTask]"
| "happy_path CreateBootStrapClusterTask =
     [CreateBootStrapClusterTask, CreateWorkloadClusterTask,
      MoveClusterManagementTask, InstallEksaComponentsTask, InstallAddonManagerTask,
      WriteClusterConfigTask, DeleteBootstrapClusterTask]"
| "happy_path CreateWorkloadClusterTask =
     [CreateWorkloadClusterTask,
      MoveClusterManagementTask, InstallEksaComponentsTask, InstallAddonManagerTask,
      WriteClusterConfigTask, DeleteBootstrapClusterTask]"
| "happy_path MoveClusterManagementTask =
     [MoveClusterManagementTask, InstallEksaComponentsTask, InstallAddonManagerTask,
      WriteClusterConfigTask, DeleteBootstrapClusterTask]"
| "happy_path InstallEksaComponentsTask =
     [InstallEksaComponentsTask, InstallAddonManagerTask,
      WriteClusterConfigTask, DeleteBootstrapClusterTask]"
| "happy_path InstallAddonManagerTask =
     [InstallAddonManagerTask, WriteClusterConfigTask, DeleteBootstrapClusterTask]"
| "happy_path WriteClusterConfigTask = [WriteClusterConfigTask, DeleteBootstrapClusterTask]"
| "happy_path DeleteBootstrapClusterTask = [DeleteBootstrapClusterTask]"
| "happy_path DeleteKindClusterTask = [DeleteKindClusterTask]"

text \<open>
  The state of a run after \<open>n\<close> iterations of the runner's loop: the current task (if
  any), the context and the environment. \<open>chain_state\<close> starts where \<open>Create.Run\<close>
  starts the chain. These are the reachable states of the task chain.
\<close>

fun steps :: "nat \<Rightarrow> task option \<times> 'w run_state \<Rightarrow> task option \<times> 'w run_state" where
  "steps 0 st = st"
| "steps (Suc n) (None, s) = (None, s)"
| "steps (Suc n) (Some t, s) = steps n (Run t s)"

definition chain_state :: "'w Create \<Rightarrow> Spec \<Rightarrow> 'w env \<Rightarrow> nat \<Rightarrow> task option \<times> 'w run_state" where
  "chain_state c clusterSpec e n =
     steps n (Some SetAndValidateTask, newCommandContext c clusterSpec, e)"

text \<open>
  What holds of the two cluster handles in every reachable state, by the task that is to
  run next.
\<close>

definition chain_inv :: "task option \<times> 'w run_state \<Rightarrow> bool" where
  "chain_inv st =
     (case st of (cur, cc, e) \<Rightarrow>
        (WorkloadCluster cc \<noteq> None \<longrightarrow> BootstrapCluster cc \<noteq> None) \<and>
        (cur \<in> {Some SetAndValidateTask, Some CreateBootStrapClusterTask,
                 Some DeleteKindClusterTask, Some CreateWorkloadClusterTask}
           \<longrightarrow> WorkloadCluster cc = None) \<and>
        (cur = Some CreateWorkloadClusterTask \<longrightarrow> BootstrapCluster cc \<noteq> None) \<and>
        (cur \<in> {Some SetAndValidateTask, Some CreateBootStrapClusterTask}
           \<longrightarrow> BootstrapCluster cc = None))"

text \<open>
  The captured error is the oldest of the errors handed to \<open>SetError\<close>.
\<close>

definition first_observed :: "'w CommandContext \<Rightarrow> bool" where
  "first_observed cc =
     (OriginalError cc = (case ObservedErrors cc of [] \<Rightarrow> None | x # _ \<Rightarrow> Some x))"

text \<open>
  Predicates on the call history: all calls succeeded; the call is a deletion of a
  bootstrap cluster; the call writes the cluster configuration. \<open>write_result\<close> is what the
  writer returns when \<open>WriteClusterConfigTask\<close> runs in the given state.
\<close>

definition all_ok :: "(call \<times> error) list \<Rightarrow> bool" where
  "all_ok cs = list_all (\<lambda>x. snd x = None) cs"

definition is_deletion :: "call \<times> error \<Rightarrow> bool" where
  "is_deletion x = (case fst x of DeleteBootstrapClusterCall _ _ \<Rightarrow> True | _ \<Rightarrow> False)"

definition is_write :: "call \<times> error \<Rightarrow> bool" where
  "is_write x = (fst x = WriteClusterConfigCall)"

definition write_result :: "'w run_state \<Rightarrow> error" where
  "write_result s =
     (case s of (cc, e) \<Rightarrow>
        fst (WriteClusterConfig (Writer cc) (ClusterSpec cc)
               (DatacenterConfig (Provider cc) (world e)) (MachineConfigs (Provider cc) (world e))
               (world e)))"

section \<open>Scripted collaborators\<close>

text \<open>
  Collaborators whose world is a script, in the way of the mocks of the repository's
  tests: the world is the list of the outcomes of the calls still to come. A call takes
  the head of the list as its outcome; past the end of the list every call succeeds.
\<close>

definition next_outcome :: "error list \<Rightarrow> error \<times> error list" where
  "next_outcome w = (case w of [] \<Rightarrow> (None, []) | r # rs \<Rightarrow> (r, rs))"

definition next_value :: "'a \<Rightarrow> error list \<Rightarrow> (err + 'a) \<times> error list" where
  "next_value v w =
     (case next_outcome w of (None, w') \<Rightarrow> (Inr v, w') | (Some x, w') \<Rightarrow> (Inl x, w'))"

definition scriptedProvider :: "error list Provider" where
  "scriptedProvider =
     \<lparr>Provider_Name = ''docker'',
      Provider_Version = (\<lambda>_. ''v0.3.19''),
      EnvMap = next_value [],
      GetInfrastructureBundle =
        (\<lambda>_. Some \<lparr>FolderName = ''infrastructure-docker'', Manifests = []\<rparr>),
      BootstrapClusterOpts = next_value [],
      BootstrapSetup = (\<lambda>_ _. next_outcome),
      SetupAndValidateCreateCluster = (\<lambda>_. next_outcome),
      DatacenterConfig =
        (\<lambda>_. \<lparr>DatacenterConfig_Kind = ''DockerDatacenterConfig'',
               DatacenterConfig_PauseReconcile = (\<lambda>w. w)\<rparr>),
      MachineConfigs = (\<lambda>_. [])\<rparr>"

definition scriptedBootstrapper :: "error list Bootstrapper" where
  "scriptedBootstrapper =
     \<lparr>CreateBootstrapCluster =
        (\<lambda>_ _. next_value \<lparr>Name = ''bootstrap'', KubeconfigFile = ''bootstrap.kubeconfig''\<rparr>),
      DeleteBootstrapCluster = (\<lambda>_ _. next_outcome)\<rparr>"

definition scriptedClusterManager :: "error list ClusterManager" where
  "scriptedClusterManager =
     \<lparr>InstallCapi = (\<lambda>_ _ _. next_outcome),
      CreateWorkloadCluster =
        (\<lambda>_ _ _. next_value \<lparr>Name = ''workload'', KubeconfigFile = ''workload.kubeconfig''\<rparr>),
      InstallNetworking = (\<lambda>_ _. next_outcome),
      InstallStorageClass = (\<lambda>_ _. next_outcome),
      InstallMachineHealthChecks = (\<lambda>_ _. next_outcome),
      MoveCapi = (\<lambda>_ _. next_outcome),
      InstallCustomComponents = (\<lambda>_ _. next_outcome),
      CreateEKSAResources = (\<lambda>_ _ _ _. next_outcome),
      ResumeEKSAControllerReconcile = (\<lambda>_ _ _. next_outcome),
      SaveLogs = (\<lambda>_. next_outcome)\<rparr>"

definition scriptedAddonManager :: "error list AddonManager" where
  "scriptedAddonManager =
     \<lparr>InstallGitOps = (\<lambda>_ _ _ _. next_outcome),
      Validations = (\<lambda>_. [])\<rparr>"

definition scriptedWriter :: "error list FileWriter" where
  "scriptedWriter = \<lparr>WriteClusterConfig = (\<lambda>_ _ _. next_outcome)\<rparr>"

definition scriptedCreate :: "error list Create" where
  "scriptedCreate =
     \<lparr>Create_bootstrapper = scriptedBootstrapper,
      Create_provider = scriptedProvider,
      Create_clusterManager = scriptedClusterManager,
      Create_addonManager = scriptedAddonManager,
      Create_writer = scriptedWriter\<rparr>"

definition noImage :: Image where
  "noImage = \<lparr>Image_Image = [], Image_Tag = []\<rparr>"

definition noCoreBundle :: CoreBundle where
  "noCoreBundle =
     \<lparr>Version = ''v0'', Controller = noImage, KubeProxy = noImage,
      Components = \<lparr>URI = []\<rparr>, Metadata = \<lparr>URI = []\<rparr>\<rparr>"

definition scriptedSpec :: Spec where
  "scriptedSpec =
     \<lparr>Spec_Name = ''test'',
      Paused = False,
      ExternalEtcdConfiguration = None,
      VersionsBundle =
        \<lparr>CertManager = \<lparr>Cainjector = noImage, CertManager_Controller = noImage, Webhook = noImage\<rparr>,
         ClusterAPI = noCoreBundle,
         Bootstrap = noCoreBundle,
         ControlPlane = noCoreBundle,
         Aws = noCoreBundle,
         VSphere = \<lparr>ClusterAPIController = noImage, VSphere_KubeProxy = noImage\<rparr>,
         Docker = \<lparr>Docker_KubeProxy = noImage, Manager = noImage\<rparr>,
         ExternalEtcdBootstrap = noCoreBundle,
         ExternalEtcdController = noCoreBundle\<rparr>\<rparr>"

definition scriptedEnv :: "error list \<Rightarrow> error list env" where
  "scriptedEnv script = \<lparr>world = script, calls = []\<rparr>"

definition scriptedRuntime :: "error list Runtime" where
  "scriptedRuntime =
     \<lparr>generatedDir = ''generated'',
      overridesDir = ''overrides'',
      clusterctlConfigTemplate = [],
      filepath_Join = (\<lambda>parts. foldr (\<lambda>p acc. if acc = [] then p else p @ ''/'' @ acc) parts []),
      path_Dir = (\<lambda>p. p),
      os_Getwd = next_value ''/home/user'',
      os_MkdirAll = (\<lambda>_. next_outcome),
      ioutil_WriteFile = (\<lambda>_ _. next_outcome),
      LoadManifest = (\<lambda>_ m. next_value \<lparr>Filename = URI m, Content = []\<rparr>),
      templater_WriteToFile = (\<lambda>_ _ _ filename. next_value (''test/generated/'' @ filename))\<rparr>"

definition scriptedClusterctl :: "error list Clusterctl" where
  "scriptedClusterctl =
     \<lparr>executable = \<lparr>ExecuteWithEnv = (\<lambda>_ _. next_value [])\<rparr>,
      Clusterctl_writer = scriptedWriter\<rparr>"

definition passingValidation :: "string \<Rightarrow> 'w Validation" where
  "passingValidation n = (\<lambda>w. (\<lparr>result_Name = n, result_Err = None\<rparr>, w))"

definition failingValidation :: "string \<Rightarrow> err \<Rightarrow> 'w Validation" where
  "failingValidation n x = (\<lambda>w. (\<lparr>result_Name = n, result_Err = Some x\<rparr>, w))"

section \<open>The captured error\<close>

lemma SetError_OriginalError:
  "OriginalError (SetError cc e) = (case OriginalError cc of None \<Rightarrow> Some e | Some x \<Rightarrow> Some x)"
  by (simp add: SetError_def split: option.splits)

lemma SetError_ObservedErrors: "ObservedErrors (SetError cc e) = ObservedErrors cc @ [e]"
  by (simp add: SetError_def)

lemma foldl_SetError_kept:
  "OriginalError cc = Some x \<Longrightarrow> OriginalError (foldl SetError cc es) = Some x"
  by (induction es arbitrary: cc) (simp_all add: SetError_OriginalError)

lemma foldl_SetError_observed:
  "ObservedErrors (foldl SetError cc es) = ObservedErrors cc @ es"
  by (induction es arbitrary: cc) (simp_all add: SetError_ObservedErrors)

lemma SetError_handles [simp]:
  "BootstrapCluster (SetError cc x) = BootstrapCluster cc"
  "WorkloadCluster (SetError cc x) = WorkloadCluster cc"
  by (simp_all add: SetError_def)

lemma SetError_first_observed: "first_observed cc \<Longrightarrow> first_observed (SetError cc x)"
  by (auto simp: first_observed_def SetError_def split: list.splits)

lemma first_observed_update [simp]:
  "first_observed (cc\<lparr>BootstrapCluster := b\<rparr>) = first_observed cc"
  "first_observed (cc\<lparr>WorkloadCluster := w\<rparr>) = first_observed cc"
  "first_observed (cc\<lparr>ClusterSpec := sp\<rparr>) = first_observed cc"
  by (simp_all add: first_observed_def)

section \<open>The runner's loop\<close>

lemmas Run_defs =
  CreateBootStrapClusterTask_Run_def DeleteKindClusterTask_Run_def
  SetAndValidateTask_Run_def CreateWorkloadClusterTask_Run_def
  InstallEksaComponentsTask_Run_def InstallAddonManagerTask_Run_def
  MoveClusterManagementTask_Run_def WriteClusterConfigTask_Run_def
  DeleteBootstrapClusterTask_Run_def

lemma task_loop_None: "task_loop run None started s = Some (started, s)"
  by (subst task_loop.simps) simp

lemma task_loop_Some:
  "task_loop run (Some t) started s =
     task_loop run (fst (run t s)) (started @ [t]) (snd (run t s))"
  by (subst task_loop.simps) (simp add: case_prod_beta)

lemma Run_rank: "Run t s = (Some t', s') \<Longrightarrow> rank t' < rank t"
  by (cases t)
     (auto simp: CreateBootStrapClusterTask_Run_def DeleteKindClusterTask_Run_def
        SetAndValidateTask_Run_def CreateWorkloadClusterTask_Run_def
        InstallEksaComponentsTask_Run_def InstallAddonManagerTask_Run_def
        MoveClusterManagementTask_Run_def WriteClusterConfigTask_Run_def
        DeleteBootstrapClusterTask_Run_def Let_def
        split: prod.splits sum.splits option.splits if_splits)

text \<open>
  A loop over tasks whose rank falls with every transition ends, after running tasks of
  falling rank: at most one task per rank, none twice.
\<close>

lemma task_loop_ranked:
  assumes dec: "\<And>t s t' s'. run t s = (Some t', s') \<Longrightarrow> rk t' < rk t"
  shows "\<exists>ts s'. task_loop run (Some t) started s = Some (started @ t # ts, s') \<and>
           length ts < rk t + 1 \<and> (\<forall>x\<in>set ts. rk x < rk t) \<and> distinct ts"
proof (induction "rk t" arbitrary: t started s rule: less_induct)
  case less
  show ?case
  proof (cases "run t s")
    case (Pair nxt s1)
    show ?thesis
    proof (cases nxt)
      case None
      with Pair show ?thesis by (simp add: task_loop_Some task_loop_None)
    next
      case (Some t')
      with Pair have lt: "rk t' < rk t" using dec by blast
      from less[OF lt, of "started @ [t]" s1] obtain ts s2 where
        h: "task_loop run (Some t') (started @ [t]) s1 = Some ((started @ [t]) @ t' # ts, s2)"
           "length ts < rk t' + 1" "\<forall>x\<in>set ts. rk x < rk t'" "distinct ts"
        by blast
      have "task_loop run (Some t) started s = Some (started @ t # (t' # ts), s2)"
        using Pair Some h(1) by (simp add: task_loop_Some)
      moreover have "length (t' # ts) < rk t + 1" using h(2) lt by simp
      moreover have "\<forall>x\<in>set (t' # ts). rk x < rk t" using h(3) lt by auto
      moreover have "distinct (t' # ts)" using h(3) h(4) by auto
      ultimately show ?thesis by blast
    qed
  qed
qed

lemma task_loop_steps:
  "steps n (cur, s) = (cur', s1) \<Longrightarrow>
     \<exists>started'. task_loop Run cur started s = task_loop Run cur' started' s1"
proof (induction n arbitrary: cur s started)
  case 0
  then show ?case by auto
next
  case (Suc n)
  show ?case
  proof (cases cur)
    case None
    with Suc.prems show ?thesis by auto
  next
    case (Some t)
    obtain nxt s2 where r: "Run t s = (nxt, s2)" by (cases "Run t s")
    with Suc.prems Some have "steps n (nxt, s2) = (cur', s1)" by simp
    from Suc.IH[OF this, of "started @ [t]"] obtain started' where
      "task_loop Run nxt (started @ [t]) s2 = task_loop Run cur' started' s1" by blast
    then show ?thesis using Some r by (auto simp: task_loop_Some)
  qed
qed

lemmas scripted_defs =
  next_outcome_def next_value_def scriptedProvider_def scriptedBootstrapper_def
  scriptedClusterManager_def scriptedAddonManager_def scriptedWriter_def scriptedCreate_def
  scriptedEnv_def

lemmas eval_defs =
  Create_Run_def RunTask_def task_loop_Some task_loop_None Run_defs invoke_def invoke_val_def
  SetError_def newCommandContext_def NewRunner_def Register_def Runner_Run_def
  providerValidation_def combined_error_def failed_results_def Spec_PauseReconcile_def

section \<open>The call history\<close>

lemma all_ok_simps [simp]:
  "all_ok []" "all_ok (x # xs) = (snd x = None \<and> all_ok xs)"
  "all_ok (xs @ ys) = (all_ok xs \<and> all_ok ys)"
  by (simp_all add: all_ok_def)

lemma collect_results_calls:
  "collect_results vs e = (rs, e') \<Longrightarrow>
     calls e' = calls e @ map (\<lambda>r. (ValidationCall (result_Name r), result_Err r)) rs \<and>
     length rs = length vs"
proof (induction vs arbitrary: e rs e')
  case Nil
  then show ?case by simp
next
  case (Cons v vs)
  obtain r w' where v: "v (world e) = (r, w')" by (cases "v (world e)")
  obtain rs1 e1 where c: "collect_results vs
      \<lparr>world = w', calls = calls e @ [(ValidationCall (result_Name r), result_Err r)]\<rparr> = (rs1, e1)"
    by (cases "collect_results vs
      \<lparr>world = w', calls = calls e @ [(ValidationCall (result_Name r), result_Err r)]\<rparr>")
  from Cons.prems v c have eq: "rs = r # rs1" "e' = e1" by simp_all
  from Cons.IH[OF c] eq show ?case by simp
qed

lemma Runner_Run_calls:
  "Runner_Run r e = (res, e') \<Longrightarrow>
     \<exists>rs. calls e' = calls e @ map (\<lambda>r. (ValidationCall (result_Name r), result_Err r)) rs \<and>
          res = combined_error rs \<and> length rs = length (validations r)"
  by (auto simp: Runner_Run_def split: prod.splits dest: collect_results_calls)

lemma failed_results_all_ok:
  "all_ok (map (\<lambda>r. (ValidationCall (result_Name r), result_Err r)) rs) \<Longrightarrow>
     failed_results rs = []"
  by (induction rs) (simp_all add: failed_results_def)

lemma combined_error_all_ok:
  "all_ok (map (\<lambda>r. (ValidationCall (result_Name r), result_Err r)) rs) \<Longrightarrow>
     combined_error rs = None"
  by (simp add: combined_error_def failed_results_all_ok)

text \<open>
  A task only adds to the call history, and so does the loop.
\<close>

lemma Run_calls_mono:
  "Run t (cc, e) = (nxt, cc', e') \<Longrightarrow> \<exists>new. calls e' = calls e @ new"
  by (cases t)
     (auto simp: Run_defs invoke_def invoke_val_def Let_def
        split: prod.splits sum.splits option.splits if_splits dest!: Runner_Run_calls)

lemma task_loop_calls_mono:
  "task_loop Run cur started s = Some (ts, s') \<Longrightarrow> \<exists>new. calls (snd s') = calls (snd s) @ new"
proof (induction "case cur of None \<Rightarrow> 0 | Some t \<Rightarrow> Suc (rank t)"
        arbitrary: cur started s rule: less_induct)
  case less
  show ?case
  proof (cases cur)
    case None
    with less.prems show ?thesis by (simp add: task_loop_None)
  next
    case (Some t)
    obtain nxt cc1 e1 where r: "Run t s = (nxt, cc1, e1)" by (cases "Run t s") auto
    have l: "task_loop Run nxt (started @ [t]) (cc1, e1) = Some (ts, s')"
      using less.prems Some r by (simp add: task_loop_Some)
    have m: "(case nxt of None \<Rightarrow> 0 | Some t \<Rightarrow> Suc (rank t)) <
             (case cur of None \<Rightarrow> 0 | Some t \<Rightarrow> Suc (rank t))"
      using Some r Run_rank[of t s] by (cases nxt) auto
    from less.hyps[OF m l] obtain new2 where n2: "calls (snd s') = calls e1 @ new2" by auto
    from Run_calls_mono[of t "fst s" "snd s" nxt cc1 e1] r
    obtain new1 where n1: "calls e1 = calls (snd s) @ new1" by auto
    show ?thesis using n1 n2 by simp
  qed
qed

lemma chain_step:
  assumes "task_loop Run (Some t) started (cc, e) = Some (ts, ccF, eF)"
    and "calls eF = calls e @ new"
  shows "\<exists>nxt cc1 e1 new1 new2.
           Run t (cc, e) = (nxt, cc1, e1) \<and> calls e1 = calls e @ new1 \<and> new = new1 @ new2 \<and>
           task_loop Run nxt (started @ [t]) (cc1, e1) = Some (ts, ccF, eF) \<and>
           calls eF = calls e1 @ new2"
proof -
  obtain nxt cc1 e1 where r: "Run t (cc, e) = (nxt, cc1, e1)" by (cases "Run t (cc, e)") auto
  have l: "task_loop Run nxt (started @ [t]) (cc1, e1) = Some (ts, ccF, eF)"
    using assms(1) r by (simp add: task_loop_Some)
  from Run_calls_mono[OF r] obtain new1 where n1: "calls e1 = calls e @ new1" by auto
  from task_loop_calls_mono[OF l] obtain new2 where n2: "calls eF = calls e1 @ new2" by auto
  have "new = new1 @ new2" using assms(2) n1 n2 by simp
  then show ?thesis using r l n1 n2 by blast
qed

lemma RunTask_total:
  "\<exists>ts cc' e' new. RunTask t (cc, e) = Some (OriginalError cc', ts, cc', e') \<and>
      task_loop Run (Some t) [] (cc, e) = Some (ts, cc', e') \<and> calls e' = calls e @ new"
proof -
  have "\<exists>ts s'. task_loop Run (Some t) [] (cc, e) = Some ([] @ t # ts, s') \<and>
          length ts < rank t + 1 \<and> (\<forall>x\<in>set ts. rank x < rank t) \<and> distinct ts"
    by (rule task_loop_ranked) (rule Run_rank)
  then obtain ts s' where l: "task_loop Run (Some t) [] (cc, e) = Some (t # ts, s')" by auto
  obtain cc' e' where s': "s' = (cc', e')" by (cases s')
  from task_loop_calls_mono[OF l] s' obtain new where "calls e' = calls e @ new" by auto
  then show ?thesis using l s' by (auto simp: RunTask_def)
qed

text \<open>
  The two ways \<open>Create.Run\<close> ends: aborted by a failed forced cleanup, or after
  the chain has run, with the logs saved when the chain reports an error.
\<close>

lemma Create_Run_cases:
  obtains (aborted) err w' where "forceCleanup"
      and "DeleteBootstrapCluster (Create_bootstrapper c)
             (Some \<lparr>Name = Spec_Name clusterSpec, KubeconfigFile = []\<rparr>) False (world e) = (Some err, w')"
      and "Create_Run c clusterSpec forceCleanup e =
             Some \<lparr>returned = Some err, final_context = None, tasks_run = [],
                   final_env = \<lparr>world = w', calls = calls e @
                     [(DeleteBootstrapClusterCall
                         (Some \<lparr>Name = Spec_Name clusterSpec, KubeconfigFile = []\<rparr>) False,
                       Some err)]\<rparr>\<rparr>"
  | (ran) e1 pre ts ccF eF new2 eR post where
      "calls e1 = calls e @ pre"
      and "pre = (if forceCleanup
                  then [(DeleteBootstrapClusterCall
                           (Some \<lparr>Name = Spec_Name clusterSpec, KubeconfigFile = []\<rparr>) False, None)]
                  else [])"
      and "task_loop Run (Some SetAndValidateTask) [] (newCommandContext c clusterSpec, e1) =
             Some (ts, ccF, eF)"
      and "calls eF = calls e1 @ new2"
      and "calls eR = calls eF @ post"
      and "OriginalError ccF = None \<longrightarrow> post = []"
      and "OriginalError ccF \<noteq> None \<longrightarrow> (\<exists>x. post = [(SaveLogsCall, x)])"
      and "Create_Run c clusterSpec forceCleanup e =
             Some \<lparr>returned = OriginalError ccF, final_context = Some ccF, tasks_run = ts,
                   final_env = eR\<rparr>"
proof -
  let ?cl = "Some \<lparr>Name = Spec_Name clusterSpec, KubeconfigFile = []\<rparr>"
  obtain res w' where d: "DeleteBootstrapCluster (Create_bootstrapper c) ?cl False (world e) = (res, w')"
    by (cases "DeleteBootstrapCluster (Create_bootstrapper c) ?cl False (world e)")
  show thesis
  proof (cases "forceCleanup \<and> res \<noteq> None")
    case True
    then obtain err where "res = Some err" by auto
    with True d show thesis
      by (intro aborted[of err w']) (simp_all add: Create_Run_def invoke_def)
  next
    case False
    define e1 where "e1 = (if forceCleanup
        then \<lparr>world = w', calls = calls e @ [(DeleteBootstrapClusterCall ?cl False, None)]\<rparr> else e)"
    from RunTask_total[of SetAndValidateTask "newCommandContext c clusterSpec" e1]
    obtain ts ccF eF new2 where
      rt: "RunTask SetAndValidateTask (newCommandContext c clusterSpec, e1) =
             Some (OriginalError ccF, ts, ccF, eF)"
      and l: "task_loop Run (Some SetAndValidateTask) [] (newCommandContext c clusterSpec, e1) =
             Some (ts, ccF, eF)"
      and n2: "calls eF = calls e1 @ new2" by blast
    define eR where "eR = (if OriginalError ccF \<noteq> None
        then snd (invoke SaveLogsCall (SaveLogs (ClusterManager ccF) (BootstrapCluster ccF)) eF)
        else eF)"
    define post where "post = (if OriginalError ccF \<noteq> None
        then [(SaveLogsCall, fst (SaveLogs (ClusterManager ccF) (BootstrapCluster ccF) (world eF)))]
        else [])"
    have cr: "Create_Run c clusterSpec forceCleanup e =
             Some \<lparr>returned = OriginalError ccF, final_context = Some ccF, tasks_run = ts,
                   final_env = eR\<rparr>"
      using False d rt
      by (auto simp: Create_Run_def invoke_def e1_def eR_def split: prod.splits)
    have p: "calls eR = calls eF @ post"
      by (auto simp: eR_def post_def invoke_def split: prod.splits)
    show thesis
      by (rule ran[of e1 _ ts ccF eF new2 eR post, OF _ refl l n2 p _ _ cr])
         (auto simp: e1_def post_def)
  qed
qed

lemma Run_first_observed:
  "first_observed cc \<Longrightarrow> Run t (cc, e) = (nxt, cc', e') \<Longrightarrow> first_observed cc'"
  by (cases t)
     (auto simp: Run_defs Let_def SetError_first_observed
        split: prod.splits sum.splits option.splits if_splits)

lemma task_loop_first_observed:
  "task_loop Run cur started (cc, e) = Some (ts, cc', e') \<Longrightarrow> first_observed cc \<Longrightarrow>
     first_observed cc'"
proof (induction "case cur of None \<Rightarrow> 0 | Some t \<Rightarrow> Suc (rank t)"
        arbitrary: cur started cc e rule: less_induct)
  case less
  show ?case
  proof (cases cur)
    case None
    with less.prems show ?thesis by (simp add: task_loop_None)
  next
    case (Some t)
    obtain nxt cc1 e1 where r: "Run t (cc, e) = (nxt, cc1, e1)" by (cases "Run t (cc, e)") auto
    have l: "task_loop Run nxt (started @ [t]) (cc1, e1) = Some (ts, cc', e')"
      using less.prems(1) Some r by (simp add: task_loop_Some)
    have m: "(case nxt of None \<Rightarrow> 0 | Some t \<Rightarrow> Suc (rank t)) <
             (case cur of None \<Rightarrow> 0 | Some t \<Rightarrow> Suc (rank t))"
      using Some r Run_rank[of t "(cc, e)"] by (cases nxt) auto
    have "first_observed cc1" using Run_first_observed[OF less.prems(2) r] .
    from less.hyps[OF m l this] show ?thesis .
  qed
qed

section \<open>Runs on which every call succeeds\<close>

lemma filter_is_write_validations:
  "filter is_write (map (\<lambda>r. (ValidationCall (result_Name r), result_Err r)) rs) = []"
  by (induction rs) (simp_all add: is_write_def)

text \<open>
  What one task does when every call it issues succeeds.
\<close>

lemma Run_ok:
  assumes "Run t (cc, e) = (nxt, cc1, e1)" and "calls e1 = calls e @ new1" and "all_ok new1"
    and "t \<noteq> DeleteKindClusterTask"
  shows "nxt = happy_next t \<and> OriginalError cc1 = OriginalError cc \<and>
         (if t = CreateBootStrapClusterTask then BootstrapCluster cc1 \<noteq> None
          else BootstrapCluster cc1 = BootstrapCluster cc) \<and>
         (if t = CreateWorkloadClusterTask then WorkloadCluster cc1 \<noteq> None
          else WorkloadCluster cc1 = WorkloadCluster cc) \<and>
         filter is_write new1 =
           (if t = WriteClusterConfigTask then [(WriteClusterConfigCall, None)] else []) \<and>
         (t = DeleteBootstrapClusterTask \<longrightarrow>
            new1 = [(DeleteBootstrapClusterCall (BootstrapCluster cc) False, None)])"
proof (cases t)
  case SetAndValidateTask
  then show ?thesis using assms
    by (auto simp: SetAndValidateTask_Run_def Let_def filter_is_write_validations
          combined_error_all_ok split: prod.splits option.splits dest!: Runner_Run_calls)
next
  case CreateBootStrapClusterTask
  then show ?thesis using assms
    by (auto simp: CreateBootStrapClusterTask_Run_def invoke_def invoke_val_def Let_def
          is_write_def split: prod.splits sum.splits option.splits)
next
  case DeleteKindClusterTask
  then show ?thesis using assms by simp
next
  case CreateWorkloadClusterTask
  then show ?thesis using assms
    by (auto simp: CreateWorkloadClusterTask_Run_def invoke_def invoke_val_def Let_def
          is_write_def split: prod.splits sum.splits option.splits)
next
  case InstallEksaComponentsTask
  then show ?thesis using assms
    by (auto simp: InstallEksaComponentsTask_Run_def invoke_def invoke_val_def Let_def
          is_write_def split: prod.splits sum.splits option.splits)
next
  case InstallAddonManagerTask
  then show ?thesis using assms
    by (auto simp: InstallAddonManagerTask_Run_def invoke_def is_write_def
          split: prod.splits option.splits)
next
  case MoveClusterManagementTask
  then show ?thesis using assms
    by (auto simp: MoveClusterManagementTask_Run_def invoke_def is_write_def
          split: prod.splits option.splits)
next
  case WriteClusterConfigTask
  then show ?thesis using assms
    by (auto simp: WriteClusterConfigTask_Run_def invoke_def is_write_def
          split: prod.splits option.splits)
next
  case DeleteBootstrapClusterTask
  then show ?thesis using assms
    by (auto simp: DeleteBootstrapClusterTask_Run_def invoke_def is_write_def
          split: prod.splits option.splits)
qed

lemma happy_chain:
  assumes "task_loop Run (Some t) started (cc, e) = Some (ts, ccF, eF)"
    and "calls eF = calls e @ new" and "all_ok new" and "t \<noteq> DeleteKindClusterTask"
  shows "ts = started @ happy_path t \<and> OriginalError ccF = OriginalError cc \<and>
         (if 6 \<le> rank t then BootstrapCluster ccF \<noteq> None
          else BootstrapCluster ccF = BootstrapCluster cc) \<and>
         (if 5 \<le> rank t then WorkloadCluster ccF \<noteq> None
          else WorkloadCluster ccF = WorkloadCluster cc) \<and>
         new \<noteq> [] \<and> last new = (DeleteBootstrapClusterCall (BootstrapCluster ccF) False, None) \<and>
         length (filter is_write new) = (if 1 \<le> rank t then 1 else 0)"
  using assms
proof (induction "rank t" arbitrary: t started cc e new rule: less_induct)
  case less
  from chain_step[OF less.prems(1,2)] obtain nxt cc1 e1 new1 new2 where
    r: "Run t (cc, e) = (nxt, cc1, e1)" and n1: "calls e1 = calls e @ new1"
    and n: "new = new1 @ new2"
    and l: "task_loop Run nxt (started @ [t]) (cc1, e1) = Some (ts, ccF, eF)"
    and n2: "calls eF = calls e1 @ new2"
    by blast
  have ok1: "all_ok new1" and ok2: "all_ok new2" using less.prems(3) n by simp_all
  note f = Run_ok[OF r n1 ok1 less.prems(4)]
  show ?case
  proof (cases "happy_next t")
    case None
    then have t: "t = DeleteBootstrapClusterTask" using less.prems(4) by (cases t) simp_all
    have "nxt = None" using f None by simp
    with l have "ts = started @ [t]" "ccF = cc1" "eF = e1" by (simp_all add: task_loop_None)
    then show ?thesis using f t n n1 n2 by (simp add: is_write_def)
  next
    case (Some t')
    then have lt: "rank t' < rank t" and nk: "t' \<noteq> DeleteKindClusterTask"
      by (cases t; simp)+
    have l': "task_loop Run (Some t') (started @ [t]) (cc1, e1) = Some (ts, ccF, eF)"
      using l f Some by simp
    note ih = less.hyps[OF lt l' n2 ok2 nk]
    show ?thesis using ih f Some n by (cases t) (simp_all split: if_splits)
  qed
qed

section \<open>Invariants of the chain\<close>

lemma Run_inv: "chain_inv (Some t, s) \<Longrightarrow> chain_inv (Run t s)"
  by (cases t; cases s)
     (auto simp: chain_inv_def Run_defs invoke_def invoke_val_def Let_def
        split: prod.splits sum.splits option.splits)

lemma steps_None [simp]: "steps n (None, s) = (None, s)"
  by (cases n) simp_all

lemma steps_inv: "chain_inv st \<Longrightarrow> chain_inv (steps n st)"
proof (induction n arbitrary: st)
  case 0
  then show ?case by simp
next
  case (Suc n)
  obtain cur s where st: "st = (cur, s)" by (cases st)
  show ?case
  proof (cases cur)
    case None
    with st Suc.prems show ?thesis by simp
  next
    case (Some t)
    with st Suc.prems have "chain_inv (Run t s)" by (simp add: Run_inv)
    from Suc.IH[OF this] st Some show ?thesis by simp
  qed
qed

lemma Run_workload_stable:
  "chain_inv (Some t, cc, e) \<Longrightarrow> WorkloadCluster cc \<noteq> None \<Longrightarrow>
     WorkloadCluster (fst (snd (Run t (cc, e)))) = WorkloadCluster cc"
  by (cases t)
     (auto simp: chain_inv_def Run_defs invoke_def invoke_val_def Let_def
        split: prod.splits sum.splits option.splits)

lemma steps_workload_stable:
  "chain_inv st \<Longrightarrow> WorkloadCluster (fst (snd st)) \<noteq> None \<Longrightarrow>
     WorkloadCluster (fst (snd (steps n st))) = WorkloadCluster (fst (snd st))"
proof (induction n arbitrary: st)
  case 0
  then show ?case by simp
next
  case (Suc n)
  obtain cur cc e where st: "st = (cur, cc, e)" by (cases st)
  show ?case
  proof (cases cur)
    case None
    with st show ?thesis by simp
  next
    case (Some t)
    have i: "chain_inv (Run t (cc, e))" using Suc.prems(1) st Some by (simp add: Run_inv)
    have w: "WorkloadCluster (fst (snd (Run t (cc, e)))) = WorkloadCluster cc"
      using Run_workload_stable Suc.prems st Some by auto
    then have "WorkloadCluster (fst (snd (Run t (cc, e)))) \<noteq> None" using Suc.prems(2) st by simp
    from Suc.IH[OF i this] w st Some show ?thesis by simp
  qed
qed

lemma steps_add: "steps (m + k) st = steps k (steps m st)"
proof (induction m arbitrary: st)
  case 0
  then show ?case by simp
next
  case (Suc m)
  obtain cur s where st: "st = (cur, s)" by (cases st)
  show ?case using Suc st by (cases cur) simp_all
qed

lemma chain_inv_start: "chain_inv (Some SetAndValidateTask, newCommandContext c clusterSpec, e)"
  by (simp add: chain_inv_def newCommandContext_def)

section \<open>Results of independent validations\<close>

lemma collect_results_independent:
  "\<forall>v\<in>set vs. \<forall>w. fst (v w) = res v \<Longrightarrow> fst (collect_results vs e) = map res vs"
proof (induction vs arbitrary: e)
  case Nil
  then show ?case by simp
next
  case (Cons v vs)
  have v: "fst (v (world e)) = res v" using Cons.prems by simp
  have "fst (collect_results vs e1) = map res vs" for e1
    using Cons.IH Cons.prems by simp
  then show ?case using v
    by (auto simp: split: prod.splits) (metis fst_conv)+
qed

lemma mset_failed_names:
  "mset (map result_Name (failed_results (map res vs))) =
     image_mset (result_Name \<circ> res) (filter_mset (\<lambda>v. result_Err (res v) \<noteq> None) (mset vs))"
  by (induction vs) (simp_all add: failed_results_def)

lemma failed_results_empty_iff:
  "failed_results (map res vs) = [] \<longleftrightarrow> (\<forall>v\<in>set vs. result_Err (res v) = None)"
  by (induction vs) (simp_all add: failed_results_def)

section \<open>The properties of the specification\<close>

text \<open>
  Claim C1 (first error wins). On a context that holds no captured error, after any
  sequence of \<open>SetError\<close> calls with the arguments \<open>e1\<close>, \<open>e2\<close>, ... the captured
  original error is \<open>e1\<close>, and all the arguments have been observed, in order. The tasks
  record a failure through \<open>SetError\<close> only: a run of the chain from any task, on a context
  with no error on record, returns the first error handed to \<open>SetError\<close> during the run,
  and none when there was no such call.
\<close>

theorem first_error_wins:
  assumes "OriginalError cc = None"
  shows "OriginalError (foldl SetError cc (e1 # es)) = Some e1 \<and>
         ObservedErrors (foldl SetError cc (e1 # es)) = ObservedErrors cc @ e1 # es \<and>
         (ObservedErrors cc = [] \<longrightarrow>
            (\<exists>ts ccF eF. RunTask t (cc, e) =
               Some (case ObservedErrors ccF of [] \<Rightarrow> None | x # _ \<Rightarrow> Some x, ts, ccF, eF)))"
proof -
  have a: "OriginalError (foldl SetError cc (e1 # es)) = Some e1"
    using assms by (simp add: foldl_SetError_kept SetError_OriginalError)
  have b: "ObservedErrors (foldl SetError cc (e1 # es)) = ObservedErrors cc @ e1 # es"
    by (simp add: foldl_SetError_observed SetError_ObservedErrors)
  have c: "\<exists>ts ccF eF. RunTask t (cc, e) =
               Some (case ObservedErrors ccF of [] \<Rightarrow> None | x # _ \<Rightarrow> Some x, ts, ccF, eF)"
    if "ObservedErrors cc = []"
  proof -
    have fo: "first_observed cc" using assms that by (simp add: first_observed_def)
    from RunTask_total[of t cc e] obtain ts ccF eF where
      r: "RunTask t (cc, e) = Some (OriginalError ccF, ts, ccF, eF)"
      and l: "task_loop Run (Some t) [] (cc, e) = Some (ts, ccF, eF)" by blast
    have "first_observed ccF" using task_loop_first_observed[OF l fo] .
    then show ?thesis using r by (auto simp: first_observed_def)
  qed
  show ?thesis using a b c by blast
qed

theorem first_error_wins_witness:
  "OriginalError (newCommandContext scriptedCreate scriptedSpec) = None \<and>
   ObservedErrors (newCommandContext scriptedCreate scriptedSpec) = [] \<and>
   OriginalError (foldl SetError (newCommandContext scriptedCreate scriptedSpec)
                    [Err ''quota exceeded'', Err ''cleanup failed'']) =
     Some (Err ''quota exceeded'') \<and>
   (\<exists>ts ccF eF.
      RunTask SetAndValidateTask (newCommandContext scriptedCreate scriptedSpec, scriptedEnv []) =
        Some (case ObservedErrors ccF of [] \<Rightarrow> None | x # _ \<Rightarrow> Some x, ts, ccF, eF))"
proof -
  have h: "OriginalError (newCommandContext scriptedCreate scriptedSpec) = None"
    by (simp add: newCommandContext_def)
  have g: "ObservedErrors (newCommandContext scriptedCreate scriptedSpec) = []"
    by (simp add: newCommandContext_def)
  show ?thesis
    using h g
      first_error_wins [OF h, of "Err ''quota exceeded''" "[Err ''cleanup failed'']"
        SetAndValidateTask "scriptedEnv []"]
    by simp
qed

text \<open>
  Claim C2 (chain termination). From \<open>SetAndValidateTask\<close>, in any state and whatever the
  collaborators return, the runner's loop ends; the tasks it ran begin with
  \<open>SetAndValidateTask\<close>, are at most eight, and no task occurs twice among them.
\<close>

theorem create_chain_terminates:
  "\<exists>err ts s'. RunTask SetAndValidateTask s = Some (err, ts, s') \<and>
     hd ts = SetAndValidateTask \<and> length ts \<le> 8 \<and> distinct ts"
proof -
  have "\<exists>ts s'. task_loop Run (Some SetAndValidateTask) [] s =
            Some ([] @ SetAndValidateTask # ts, s') \<and>
          length ts < rank SetAndValidateTask + 1 \<and>
          (\<forall>x\<in>set ts. rank x < rank SetAndValidateTask) \<and> distinct ts"
    by (rule task_loop_ranked) (rule Run_rank)
  then obtain ts s' where
    h: "task_loop Run (Some SetAndValidateTask) [] s = Some ([] @ SetAndValidateTask # ts, s')"
       "length ts < rank SetAndValidateTask + 1"
       "\<forall>x\<in>set ts. rank x < rank SetAndValidateTask" "distinct ts"
    by blast
  have "SetAndValidateTask \<notin> set ts" using h(3) by auto
  then show ?thesis using h by (cases s') (auto simp: RunTask_def)
qed

theorem create_chain_terminates_witness:
  "\<exists>err ts s'.
     RunTask SetAndValidateTask
       (newCommandContext scriptedCreate scriptedSpec, scriptedEnv [Some (Err ''invalid template'')]) =
       Some (err, ts, s') \<and>
     hd ts = SetAndValidateTask \<and> length ts \<le> 8 \<and> distinct ts"
  using create_chain_terminates
    [of "(newCommandContext scriptedCreate scriptedSpec, scriptedEnv [Some (Err ''invalid template'')])"]
  by simp

text \<open>
  Claim C3 (addon isolation). Whatever \<open>InstallGitOps\<close> returns, the task
  \<open>InstallAddonManagerTask\<close> leaves the context as it found it, captured error and
  observed errors included (\<open>SetError\<close> is not called), and its successor is
  \<open>WriteClusterConfigTask\<close>; the one call it issues is entered in the history with its
  result.
\<close>

theorem addon_failure_isolated:
  "fst (Run InstallAddonManagerTask (cc, e)) = Some WriteClusterConfigTask \<and>
   fst (snd (Run InstallAddonManagerTask (cc, e))) = cc \<and>
   calls (snd (snd (Run InstallAddonManagerTask (cc, e)))) =
     calls e @ [(InstallGitOpsCall,
        fst (InstallGitOps (AddonManager cc) (WorkloadCluster cc) (ClusterSpec cc)
               (DatacenterConfig (Provider cc) (world e)) (MachineConfigs (Provider cc) (world e))
               (world e)))]"
  by (simp add: InstallAddonManagerTask_Run_def invoke_def split: prod.splits option.splits)

theorem addon_failure_isolated_witness:
  "fst (Run InstallAddonManagerTask
          (newCommandContext scriptedCreate scriptedSpec, scriptedEnv [Some (Err ''flux failed'')])) =
     Some WriteClusterConfigTask \<and>
   OriginalError (fst (snd (Run InstallAddonManagerTask
          (newCommandContext scriptedCreate scriptedSpec, scriptedEnv [Some (Err ''flux failed'')])))) =
     None \<and>
   calls (snd (snd (Run InstallAddonManagerTask
          (newCommandContext scriptedCreate scriptedSpec, scriptedEnv [Some (Err ''flux failed'')])))) =
     [(InstallGitOpsCall, Some (Err ''flux failed''))]"
  using addon_failure_isolated
    [of "newCommandContext scriptedCreate scriptedSpec" "scriptedEnv [Some (Err ''flux failed'')]"]
  by (simp add: newCommandContext_def scripted_defs)

text \<open>
  Claim C4 (write-config failure). The successor of \<open>WriteClusterConfigTask\<close> is
  \<open>DeleteBootstrapClusterTask\<close> whether the write succeeds or fails. When the write fails
  with \<open>err\<close>, the context is updated by \<open>SetError err\<close>; and when no error was captured
  before, the chain run from this task runs the two tasks and returns \<open>err\<close>, whatever the
  deletion of the bootstrap cluster returns, so also when it succeeds.
\<close>

theorem write_config_failure_kept:
  "fst (Run WriteClusterConfigTask (cc, e)) = Some DeleteBootstrapClusterTask \<and>
   (\<forall>err. write_result (cc, e) = Some err \<longrightarrow>
      fst (snd (Run WriteClusterConfigTask (cc, e))) = SetError cc err \<and>
      (OriginalError cc = None \<longrightarrow>
         (\<exists>cc' e'. RunTask WriteClusterConfigTask (cc, e) =
            Some (Some err, [WriteClusterConfigTask, DeleteBootstrapClusterTask], cc', e') \<and>
            OriginalError cc' = Some err)))"
  by (auto simp: RunTask_def task_loop_Some task_loop_None write_result_def
        WriteClusterConfigTask_Run_def DeleteBootstrapClusterTask_Run_def invoke_def
        SetError_def split: prod.splits option.splits)

theorem write_config_failure_kept_witness:
  "write_result (newCommandContext scriptedCreate scriptedSpec, scriptedEnv [Some (Err ''disk full'')]) =
     Some (Err ''disk full'') \<and>
   OriginalError (newCommandContext scriptedCreate scriptedSpec) = None \<and>
   (\<exists>cc' e'.
      RunTask WriteClusterConfigTask
        (newCommandContext scriptedCreate scriptedSpec, scriptedEnv [Some (Err ''disk full'')]) =
        Some (Some (Err ''disk full''), [WriteClusterConfigTask, DeleteBootstrapClusterTask], cc', e') \<and>
      OriginalError cc' = Some (Err ''disk full''))"
proof -
  have h: "write_result (newCommandContext scriptedCreate scriptedSpec,
             scriptedEnv [Some (Err ''disk full'')]) = Some (Err ''disk full'')"
    by (simp add: write_result_def newCommandContext_def scripted_defs)
  have g: "OriginalError (newCommandContext scriptedCreate scriptedSpec) = None"
    by (simp add: newCommandContext_def)
  show ?thesis
    using h g
      write_config_failure_kept
        [of "newCommandContext scriptedCreate scriptedSpec" "scriptedEnv [Some (Err ''disk full'')]"]
    by blast
qed

text \<open>
  Claim C5 (validation aggregation). Let the validations \<open>vs\<close> be independent: the
  result \<open>res v\<close> of each does not depend on the state it runs in. Registered in any order
  \<open>vs'\<close>, \<open>Run\<close> executes every one of them (as many results and as many entries in the
  history as validations), returns no error if and only if none of them fails, and
  otherwise returns one error, \<open>ValidationsFailed\<close>, whose names are exactly the names of
  the failing validations, each as often as it fails.
\<close>

theorem validation_aggregation:
  assumes indep: "\<forall>v\<in>set vs. \<forall>w. fst (v w) = res v"
    and perm: "mset vs' = mset vs"
  shows "length (fst (collect_results vs' e)) = length vs \<and>
         length (calls (snd (Runner_Run (Register NewRunner vs') e))) =
           length (calls e) + length vs \<and>
         (fst (Runner_Run (Register NewRunner vs') e) = None \<longleftrightarrow>
            (\<forall>v\<in>set vs. result_Err (res v) = None)) \<and>
         (\<forall>x. fst (Runner_Run (Register NewRunner vs') e) = Some x \<longrightarrow>
            (\<exists>ns. x = ValidationsFailed ns \<and>
               mset ns = image_mset (result_Name \<circ> res)
                           (filter_mset (\<lambda>v. result_Err (res v) \<noteq> None) (mset vs))))"
proof -
  have set_eq: "set vs' = set vs" using perm by (rule mset_eq_setD)
  have len: "length vs' = length vs" using perm by (rule mset_eq_length)
  have indep': "\<forall>v\<in>set vs'. \<forall>w. fst (v w) = res v" using indep set_eq by simp
  obtain rs e1 where c: "collect_results vs' e = (rs, e1)" by (cases "collect_results vs' e")
  have rs: "rs = map res vs'" using collect_results_independent[OF indep', of e] c by simp
  have run: "Runner_Run (Register NewRunner vs') e = (combined_error rs, e1)"
    using c by (simp add: Runner_Run_def Register_def NewRunner_def)
  have calls: "length (calls e1) = length (calls e) + length vs"
    using collect_results_calls[OF c] len by simp
  have none: "combined_error rs = None \<longleftrightarrow> (\<forall>v\<in>set vs. result_Err (res v) = None)"
    using failed_results_empty_iff[of res vs'] set_eq by (simp add: combined_error_def rs)
  have names: "combined_error rs = Some x \<Longrightarrow>
      \<exists>ns. x = ValidationsFailed ns \<and>
        mset ns = image_mset (result_Name \<circ> res)
                    (filter_mset (\<lambda>v. result_Err (res v) \<noteq> None) (mset vs))" for x
    using mset_failed_names[of res vs'] perm
    by (auto simp: combined_error_def rs split: if_splits)
  show ?thesis using c rs len run calls none names by simp
qed

theorem validation_aggregation_witness:
  "mset [failingValidation ''b'' (Err ''no''), passingValidation ''a''] =
     mset [passingValidation ''a'', failingValidation ''b'' (Err ''no'') :: error list Validation] \<and>
   fst (Runner_Run (Register NewRunner
          [failingValidation ''b'' (Err ''no''), passingValidation ''a'']) (scriptedEnv [])) =
     Some (ValidationsFailed [''b''])"
proof -
  let ?vs = "[passingValidation ''a'', failingValidation ''b'' (Err ''no'') :: error list Validation]"
  let ?vs' = "[failingValidation ''b'' (Err ''no''), passingValidation ''a'' :: error list Validation]"
  have h: "\<forall>v\<in>set ?vs. \<forall>w. fst (v w) = (\<lambda>v. fst (v [])) v"
    by (simp add: passingValidation_def failingValidation_def)
  have g: "mset ?vs' = mset ?vs" by (simp add: add_mset_commute)
  have r: "fst (Runner_Run (Register NewRunner ?vs') (scriptedEnv [])) \<noteq> None"
    using validation_aggregation [OF h g, of "scriptedEnv []"]
    by (simp add: passingValidation_def failingValidation_def)
  then obtain x where x: "fst (Runner_Run (Register NewRunner ?vs') (scriptedEnv [])) = Some x"
    by auto
  with validation_aggregation [OF h g, of "scriptedEnv []"]
  obtain ns where ns: "x = ValidationsFailed ns"
    "mset ns = image_mset (result_Name \<circ> (\<lambda>v. fst (v [])))
       (filter_mset (\<lambda>v. result_Err (fst (v [])) \<noteq> None) (mset ?vs))"
    by blast
  from ns(2) have "mset ns = {#''b''#}"
    by (simp add: passingValidation_def failingValidation_def)
  then have "ns = [''b'']" by (metis mset_single_iff_right)
  with x ns(1) g show ?thesis by simp
qed

text \<open>
  In a state with no bootstrap handle, a failing \<open>CreateBootStrapClusterTask\<close> is
  followed by a deletion exactly when it has set the handle.
\<close>

lemma fresh_bootstrap_failure:
  assumes "BootstrapCluster cc = None"
    and "fst (Run CreateBootStrapClusterTask (cc, e)) \<noteq> Some CreateWorkloadClusterTask"
  shows "\<exists>err ts cc' e' new.
           RunTask CreateBootStrapClusterTask (cc, e) = Some (err, ts, cc', e') \<and>
           calls e' = calls e @ new \<and>
           (BootstrapCluster cc' \<noteq> None \<longrightarrow>
              ts = [CreateBootStrapClusterTask, DeleteKindClusterTask] \<and>
              (\<exists>r. filter is_deletion new =
                      [(DeleteBootstrapClusterCall (BootstrapCluster cc') False, r)])) \<and>
           (BootstrapCluster cc' = None \<longrightarrow> filter is_deletion new = [])"
  using assms
  by (auto simp: RunTask_def task_loop_Some task_loop_None CreateBootStrapClusterTask_Run_def
        DeleteKindClusterTask_Run_def invoke_def invoke_val_def SetError_def Let_def is_deletion_def
        split: prod.splits sum.splits option.splits)

text \<open>
  Claim C6 (cleanup after a failed bootstrap). Let \<open>CreateBootStrapClusterTask\<close> be the
  task to run in a reachable state, and let it fail (it does not hand over to
  \<open>CreateWorkloadClusterTask\<close>). Then the chain ends, and among the calls issued from that
  state on there is a deletion of the bootstrap cluster if and only if the handle was set
  on the context: one deletion, of that handle, by \<open>DeleteKindClusterTask\<close>, when it was
  set, and no deletion when it was not.
\<close>

theorem bootstrap_failure_cleanup:
  assumes "chain_state c clusterSpec e0 n = (Some CreateBootStrapClusterTask, cc, e)"
    and "fst (Run CreateBootStrapClusterTask (cc, e)) \<noteq> Some CreateWorkloadClusterTask"
  shows "\<exists>err ts cc' e' new.
           RunTask CreateBootStrapClusterTask (cc, e) = Some (err, ts, cc', e') \<and>
           calls e' = calls e @ new \<and>
           (BootstrapCluster cc' \<noteq> None \<longrightarrow>
              ts = [CreateBootStrapClusterTask, DeleteKindClusterTask] \<and>
              (\<exists>r. filter is_deletion new =
                      [(DeleteBootstrapClusterCall (BootstrapCluster cc') False, r)])) \<and>
           (BootstrapCluster cc' = None \<longrightarrow> filter is_deletion new = [])"
proof -
  have "chain_inv (chain_state c clusterSpec e0 n)"
    unfolding chain_state_def by (rule steps_inv) (rule chain_inv_start)
  then have "BootstrapCluster cc = None" using assms(1) by (simp add: chain_inv_def)
  then show ?thesis using assms(2) by (rule fresh_bootstrap_failure)
qed

theorem bootstrap_failure_cleanup_witness:
  "chain_state scriptedCreate scriptedSpec
     (scriptedEnv [None, None, None, Some (Err ''capi install failed'')]) 1 =
     (Some CreateBootStrapClusterTask, newCommandContext scriptedCreate scriptedSpec,
      \<lparr>world = [None, None, Some (Err ''capi install failed'')],
       calls = [(ValidationCall ''docker Provider setup is valid'', None)]\<rparr>) \<and>
   fst (Run CreateBootStrapClusterTask
          (newCommandContext scriptedCreate scriptedSpec,
           \<lparr>world = [None, None, Some (Err ''capi install failed'')],
            calls = [(ValidationCall ''docker Provider setup is valid'', None)]\<rparr>)) \<noteq>
     Some CreateWorkloadClusterTask \<and>
   (\<exists>err ts cc' e'.
      RunTask CreateBootStrapClusterTask
        (newCommandContext scriptedCreate scriptedSpec,
         \<lparr>world = [None, None, Some (Err ''capi install failed'')],
          calls = [(ValidationCall ''docker Provider setup is valid'', None)]\<rparr>) =
        Some (err, ts, cc', e'))"
proof -
  have h: "chain_state scriptedCreate scriptedSpec
     (scriptedEnv [None, None, None, Some (Err ''capi install failed'')]) 1 =
     (Some CreateBootStrapClusterTask, newCommandContext scriptedCreate scriptedSpec,
      \<lparr>world = [None, None, Some (Err ''capi install failed'')],
       calls = [(ValidationCall ''docker Provider setup is valid'', None)]\<rparr>)"
    by (simp add: chain_state_def eval_defs scripted_defs Let_def)
  have g: "fst (Run CreateBootStrapClusterTask
          (newCommandContext scriptedCreate scriptedSpec,
           \<lparr>world = [None, None, Some (Err ''capi install failed'')],
            calls = [(ValidationCall ''docker Provider setup is valid'', None)]\<rparr>)) \<noteq>
     Some CreateWorkloadClusterTask"
    by (simp add: CreateBootStrapClusterTask_Run_def invoke_def invoke_val_def
          newCommandContext_def scripted_defs)
  show ?thesis
    using h g bootstrap_failure_cleanup [OF h g] by blast
qed

text \<open>
  Claim C7, as the source has it (happy path). When every call issued during
  \<open>Create.Run\<close> succeeds, the run returns no error after the eight tasks, in order; in
  the final context no error is captured, the workload handle is set, and the bootstrap
  handle is still set: no task clears it. The deletion of the bootstrap cluster is the
  last call of the run, issued with that handle, and the cluster configuration is written
  exactly once.
\<close>

theorem happy_path_final_state:
  assumes "map_option (calls \<circ> final_env) (Create_Run c clusterSpec forceCleanup e) =
             Some (calls e @ new)"
    and "all_ok new"
  shows "\<exists>r cc. Create_Run c clusterSpec forceCleanup e = Some r \<and>
           returned r = None \<and>
           tasks_run r =
             [SetAndValidateTask, CreateBootStrapClusterTask, CreateWorkloadClusterTask,
              MoveClusterManagementTask, InstallEksaComponentsTask, InstallAddonManagerTask,
              WriteClusterConfigTask, DeleteBootstrapClusterTask] \<and>
           final_context r = Some cc \<and> OriginalError cc = None \<and>
           WorkloadCluster cc \<noteq> None \<and> BootstrapCluster cc \<noteq> None \<and>
           last new = (DeleteBootstrapClusterCall (BootstrapCluster cc) False, None) \<and>
           length (filter is_write new) = 1"
proof (cases rule: Create_Run_cases[of forceCleanup c clusterSpec e])
  case (aborted err w')
  with assms show ?thesis by auto
next
  case (ran e1 pre ts ccF eF new2 eR post)
  have n: "new = pre @ new2 @ post" using assms(1) ran by simp
  then have ok2: "all_ok new2" using assms(2) by simp
  have k: "SetAndValidateTask \<noteq> DeleteKindClusterTask" by simp
  note h = happy_chain[OF ran(3) ran(4) ok2 k]
  have oe: "OriginalError ccF = None" using h by (simp add: newCommandContext_def)
  then have post: "post = []" using ran(6) by simp
  have w: "filter is_write pre = []" using ran(2) by (simp add: is_write_def)
  show ?thesis using h oe post n w ran(8) by simp
qed

theorem happy_path_final_state_witness:
  "all_ok
     [(ValidationCall ''docker Provider setup is valid'', None),
      (BootstrapClusterOptsCall, None), (CreateBootstrapClusterCall, None),
      (InstallCapiCall (Some \<lparr>Name = ''bootstrap'', KubeconfigFile = ''bootstrap.kubeconfig''\<rparr>), None),
      (BootstrapSetupCall, None), (CreateWorkloadClusterCall, None),
      (InstallNetworkingCall, None), (InstallStorageClassCall, None),
      (InstallCapiCall (Some \<lparr>Name = ''workload'', KubeconfigFile = ''workload.kubeconfig''\<rparr>), None),
      (InstallMachineHealthChecksCall, None), (MoveCapiCall, None),
      (InstallCustomComponentsCall, None), (CreateEKSAResourcesCall, None),
      (ResumeEKSAControllerReconcileCall, None), (InstallGitOpsCall, None),
      (WriteClusterConfigCall, None),
      (DeleteBootstrapClusterCall
         (Some \<lparr>Name = ''bootstrap'', KubeconfigFile = ''bootstrap.kubeconfig''\<rparr>) False, None)] \<and>
   (\<exists>r cc. Create_Run scriptedCreate scriptedSpec False (scriptedEnv []) = Some r \<and>
      returned r = None \<and> final_context r = Some cc \<and> OriginalError cc = None \<and>
      WorkloadCluster cc \<noteq> None \<and> BootstrapCluster cc \<noteq> None)"
proof -
  let ?new =
    "[(ValidationCall ''docker Provider setup is valid'', None),
      (BootstrapClusterOptsCall, None), (CreateBootstrapClusterCall, None),
      (InstallCapiCall (Some \<lparr>Name = ''bootstrap'', KubeconfigFile = ''bootstrap.kubeconfig''\<rparr>), None),
      (BootstrapSetupCall, None), (CreateWorkloadClusterCall, None),
      (InstallNetworkingCall, None), (InstallStorageClassCall, None),
      (InstallCapiCall (Some \<lparr>Name = ''workload'', KubeconfigFile = ''workload.kubeconfig''\<rparr>), None),
      (InstallMachineHealthChecksCall, None), (MoveCapiCall, None),
      (InstallCustomComponentsCall, None), (CreateEKSAResourcesCall, None),
      (ResumeEKSAControllerReconcileCall, None), (InstallGitOpsCall, None),
      (WriteClusterConfigCall, None),
      (DeleteBootstrapClusterCall
         (Some \<lparr>Name = ''bootstrap'', KubeconfigFile = ''bootstrap.kubeconfig''\<rparr>) False, None)]"
  have h: "map_option (calls \<circ> final_env)
             (Create_Run scriptedCreate scriptedSpec False (scriptedEnv [])) =
           Some (calls (scriptedEnv []) @ ?new)"
    by (simp add: eval_defs scripted_defs Let_def)
  have g: "all_ok ?new" by simp
  show ?thesis
    using g happy_path_final_state [OF h g] by blast
qed

text \<open>
  Claim C7 as stated fails: on the run of the scripted collaborators on which every call
  succeeds, the eight tasks run, no error is returned, and the bootstrap handle of the
  final context is the handle of the created cluster, not nil.
\<close>

theorem happy_path_bootstrap_handle_kept:
  "map_option (all_ok \<circ> calls \<circ> final_env)
     (Create_Run scriptedCreate scriptedSpec False (scriptedEnv [])) = Some True \<and>
   map_option tasks_run (Create_Run scriptedCreate scriptedSpec False (scriptedEnv [])) =
     Some [SetAndValidateTask, CreateBootStrapClusterTask, CreateWorkloadClusterTask,
           MoveClusterManagementTask, InstallEksaComponentsTask, InstallAddonManagerTask,
           WriteClusterConfigTask, DeleteBootstrapClusterTask] \<and>
   map_option returned (Create_Run scriptedCreate scriptedSpec False (scriptedEnv [])) = Some None \<and>
   Option.bind (Option.bind (Create_Run scriptedCreate scriptedSpec False (scriptedEnv []))
                  final_context) BootstrapCluster =
     Some \<lparr>Name = ''bootstrap'', KubeconfigFile = ''bootstrap.kubeconfig''\<rparr>"
  by (simp add: eval_defs scripted_defs Let_def)

text \<open>
  Claim C8 (forced cleanup). With \<open>forceCleanup\<close> set, \<open>Create.Run\<close> returns, and the
  first call it issues is the deletion of the bootstrap cluster named after the spec's
  cluster name. When that deletion fails with \<open>err\<close>, the run returns \<open>err\<close>, no context
  is built, no task runs, and no further call is issued: the world is as the failed
  deletion left it.
\<close>

theorem force_cleanup_first:
  "\<exists>r rest. Create_Run c clusterSpec True e = Some r \<and>
     calls (final_env r) =
       calls e @
       (DeleteBootstrapClusterCall (Some \<lparr>Name = Spec_Name clusterSpec, KubeconfigFile = []\<rparr>) False,
        fst (DeleteBootstrapCluster (Create_bootstrapper c)
               (Some \<lparr>Name = Spec_Name clusterSpec, KubeconfigFile = []\<rparr>) False (world e))) # rest \<and>
     (\<forall>err. fst (DeleteBootstrapCluster (Create_bootstrapper c)
                  (Some \<lparr>Name = Spec_Name clusterSpec, KubeconfigFile = []\<rparr>) False (world e)) = Some err
        \<longrightarrow> returned r = Some err \<and> final_context r = None \<and> tasks_run r = [] \<and> rest = [] \<and>
            world (final_env r) =
              snd (DeleteBootstrapCluster (Create_bootstrapper c)
                     (Some \<lparr>Name = Spec_Name clusterSpec, KubeconfigFile = []\<rparr>) False (world e)))"
proof (cases rule: Create_Run_cases[of True c clusterSpec e])
  case (aborted err w')
  then show ?thesis by simp
next
  case (ran e1 pre ts ccF eF new2 eR post)
  have "fst (DeleteBootstrapCluster (Create_bootstrapper c)
               (Some \<lparr>Name = Spec_Name clusterSpec, KubeconfigFile = []\<rparr>) False (world e)) = None"
    using ran(8) by (auto simp: Create_Run_def invoke_def split: prod.splits option.splits)
  then show ?thesis using ran by simp
qed

theorem force_cleanup_first_witness:
  "fst (DeleteBootstrapCluster (Create_bootstrapper scriptedCreate)
          (Some \<lparr>Name = Spec_Name scriptedSpec, KubeconfigFile = []\<rparr>) False
          (world (scriptedEnv [Some (Err ''kind delete failed'')]))) =
     Some (Err ''kind delete failed'') \<and>
   (\<exists>r. Create_Run scriptedCreate scriptedSpec True (scriptedEnv [Some (Err ''kind delete failed'')]) =
           Some r \<and>
         returned r = Some (Err ''kind delete failed'') \<and> final_context r = None \<and>
         tasks_run r = [] \<and>
         calls (final_env r) =
           [(DeleteBootstrapClusterCall (Some \<lparr>Name = ''test'', KubeconfigFile = []\<rparr>) False,
             Some (Err ''kind delete failed''))])"
proof -
  have h: "fst (DeleteBootstrapCluster (Create_bootstrapper scriptedCreate)
          (Some \<lparr>Name = Spec_Name scriptedSpec, KubeconfigFile = []\<rparr>) False
          (world (scriptedEnv [Some (Err ''kind delete failed'')]))) =
     Some (Err ''kind delete failed'')"
    by (simp add: scripted_defs)
  show ?thesis
    using h force_cleanup_first
      [of scriptedCreate scriptedSpec "scriptedEnv [Some (Err ''kind delete failed'')]"]
    by (auto simp: scriptedEnv_def scriptedSpec_def)
qed

text \<open>
  Claim C9 (handles). In every reachable state of the chain, a set workload handle comes
  with a set bootstrap handle; and once the workload handle is set in a reachable state,
  it has that same value in every later state of the run: it is assigned at most
  once.
\<close>

theorem workload_handle_single_assignment:
  "(WorkloadCluster (fst (snd (chain_state c clusterSpec e n))) \<noteq> None \<longrightarrow>
      BootstrapCluster (fst (snd (chain_state c clusterSpec e n))) \<noteq> None) \<and>
   (\<forall>m\<le>n. WorkloadCluster (fst (snd (chain_state c clusterSpec e m))) \<noteq> None \<longrightarrow>
      WorkloadCluster (fst (snd (chain_state c clusterSpec e n))) =
      WorkloadCluster (fst (snd (chain_state c clusterSpec e m))))"
proof -
  have inv: "chain_inv (chain_state c clusterSpec e k)" for k
    unfolding chain_state_def by (rule steps_inv) (rule chain_inv_start)
  have a: "WorkloadCluster (fst (snd (chain_state c clusterSpec e n))) \<noteq> None \<longrightarrow>
      BootstrapCluster (fst (snd (chain_state c clusterSpec e n))) \<noteq> None"
    using inv[of n] by (auto simp: chain_inv_def split: prod.splits)
  have b: "WorkloadCluster (fst (snd (chain_state c clusterSpec e n))) =
      WorkloadCluster (fst (snd (chain_state c clusterSpec e m)))"
    if "m \<le> n" "WorkloadCluster (fst (snd (chain_state c clusterSpec e m))) \<noteq> None" for m
  proof -
    have "chain_state c clusterSpec e n = steps (n - m) (chain_state c clusterSpec e m)"
      using that(1) steps_add[of m "n - m"] by (simp add: chain_state_def)
    then show ?thesis using steps_workload_stable[OF inv[of m] that(2), of "n - m"] by simp
  qed
  show ?thesis using a b by blast
qed

theorem workload_handle_single_assignment_witness:
  "WorkloadCluster (fst (snd (chain_state scriptedCreate scriptedSpec (scriptedEnv []) 3))) \<noteq> None \<and>
   (3::nat) \<le> 8 \<and>
   WorkloadCluster (fst (snd (chain_state scriptedCreate scriptedSpec (scriptedEnv []) 8))) =
     WorkloadCluster (fst (snd (chain_state scriptedCreate scriptedSpec (scriptedEnv []) 3))) \<and>
   BootstrapCluster (fst (snd (chain_state scriptedCreate scriptedSpec (scriptedEnv []) 8))) \<noteq> None"
proof -
  have h: "WorkloadCluster (fst (snd (chain_state scriptedCreate scriptedSpec (scriptedEnv []) 3))) \<noteq> None"
    by (simp add: chain_state_def eval_nat_numeral eval_defs scripted_defs Let_def)
  note t = workload_handle_single_assignment
      [of scriptedCreate scriptedSpec "scriptedEnv []" 8]
  have l: "(3::nat) \<le> 8" by simp
  from t have "\<forall>m\<le>8.
      WorkloadCluster (fst (snd (chain_state scriptedCreate scriptedSpec (scriptedEnv []) m))) \<noteq> None \<longrightarrow>
      WorkloadCluster (fst (snd (chain_state scriptedCreate scriptedSpec (scriptedEnv []) 8))) =
      WorkloadCluster (fst (snd (chain_state scriptedCreate scriptedSpec (scriptedEnv []) m)))"
    by (rule conjunct2)
  from this [rule_format, OF l h] have e:
    "WorkloadCluster (fst (snd (chain_state scriptedCreate scriptedSpec (scriptedEnv []) 8))) =
     WorkloadCluster (fst (snd (chain_state scriptedCreate scriptedSpec (scriptedEnv []) 3)))" .
  from t e h show ?thesis by simp
qed

text \<open>
  Claim C10 (guard of \<open>InitInfrastructure\<close>). When the cluster argument is nil or its
  name is empty, \<open>InitInfrastructure\<close> returns an error and leaves the environment as it
  was: nothing is entered in the call history, so no configuration file is written, no
  directory or manifest is created and the executable is not run.
\<close>

theorem init_infrastructure_guard:
  "clusterPtr = None \<or> (\<exists>cluster. clusterPtr = Some cluster \<and> Name cluster = []) \<Longrightarrow>
     snd (InitInfrastructure rt c clusterSpecPtr clusterPtr provider e) = e \<and>
     fst (InitInfrastructure rt c clusterSpecPtr clusterPtr provider e) =
       Some (Err (if clusterPtr = None then ''invalid cluster (nil)''
                  else ''invalid cluster name '' @ [CHR 0x27, CHR 0x27]))"
  by (auto simp: InitInfrastructure_def)

theorem init_infrastructure_guard_witness:
  "snd (InitInfrastructure scriptedRuntime scriptedClusterctl (Some scriptedSpec)
          (Some \<lparr>Name = [], KubeconfigFile = ''bootstrap.kubeconfig''\<rparr>) scriptedProvider
          (scriptedEnv [])) = scriptedEnv [] \<and>
   fst (InitInfrastructure scriptedRuntime scriptedClusterctl (Some scriptedSpec)
          (Some \<lparr>Name = [], KubeconfigFile = ''bootstrap.kubeconfig''\<rparr>) scriptedProvider
          (scriptedEnv [])) = Some (Err (''invalid cluster name '' @ [CHR 0x27, CHR 0x27]))"
  using init_infrastructure_guard
    [of "Some \<lparr>Name = [], KubeconfigFile = ''bootstrap.kubeconfig''\<rparr>" scriptedRuntime
        scriptedClusterctl "Some scriptedSpec" scriptedProvider "scriptedEnv []"]
  by simp

text \<open>
  For comparison, a call with a named cluster and collaborators that succeed: the
  configuration is built, and the last of the twenty calls runs the executable.
\<close>

lemma init_infrastructure_runs_clusterctl:
  "fst (InitInfrastructure scriptedRuntime scriptedClusterctl (Some scriptedSpec)
          (Some \<lparr>Name = ''test'', KubeconfigFile = ''bootstrap.kubeconfig''\<rparr>) scriptedProvider
          (scriptedEnv [])) = None \<and>
   last (calls (snd (InitInfrastructure scriptedRuntime scriptedClusterctl (Some scriptedSpec)
          (Some \<lparr>Name = ''test'', KubeconfigFile = ''bootstrap.kubeconfig''\<rparr>) scriptedProvider
          (scriptedEnv [])))) =
     (ExecuteWithEnvCall
        [''init'', ''--core'', ''cluster-api:v0'', ''--bootstrap'', ''kubeadm:v0'',
         ''--control-plane'', ''kubeadm:v0'', ''--infrastructure'', ''docker:v0.3.19'',
         ''--config'', ''test/generated/clusterctl_tmp.yaml'',
         ''--kubeconfig'', ''bootstrap.kubeconfig''], None) \<and>
   length (calls (snd (InitInfrastructure scriptedRuntime scriptedClusterctl (Some scriptedSpec)
          (Some \<lparr>Name = ''test'', KubeconfigFile = ''bootstrap.kubeconfig''\<rparr>) scriptedProvider
          (scriptedEnv [])))) = 20"
  by (simp add: InitInfrastructure_def buildConfig_def buildOverridesLayer_def
        writeInfrastructureBundle_def coreInfraBundle_def initParams_def clusterctlConfigFile_def
        invoke_def invoke_val_def scripted_defs scriptedRuntime_def scriptedClusterctl_def
        scriptedSpec_def noCoreBundle_def Let_def)

end
